theory Spec2Isabelle
  imports Complex_Main "HOL-Library.Word"
begin

section \<open>White Goods CMS API: the document CRUD and identity-mapping layer\<close>

text \<open>
  A shallow embedding of \<^verbatim>\<open>main.py\<close>: the identifier codec, the admin gate, the
  request and response shapes, the document store as the handlers use it, and the
  handlers themselves. Exceptions are values of \<open>err\<close>; a handler that touches the
  store returns its outcome together with the store it leaves behind, because a
  write that happened before an exception stays written.
\<close>

subsection \<open>Errors\<close>

text \<open>
  \<^verbatim>\<open>HTTPException(status_code, detail)\<close> is what the handlers raise themselves.
  \<open>ValidationError\<close> is the shape validator's error, \<open>ValueError\<close> Python's,
  \<open>InvalidId\<close> the identifier constructor's, \<open>AttributeError\<close> that of
  \<^verbatim>\<open>None.pop\<close>, and \<open>StoreFailure\<close> stands for whatever the store driver raises
  when the store cannot be reached.
\<close>

datatype err =
    HTTPException (status_code: nat) (detail: string)
  | ValidationError
  | ValueError string
  | InvalidId
  | AttributeError
  | StoreFailure

text \<open>The error taxonomy of the specification, as the values the code raises.\<close>

definition ServerMisconfigured :: err where
  "ServerMisconfigured = HTTPException 500 ''ADMIN_TOKEN not configured on server''"

definition Unauthorized :: err where
  "Unauthorized = HTTPException 401 ''Invalid admin token''"

definition InvalidIdentifier :: err where
  "InvalidIdentifier = HTTPException 400 ''Invalid product id''"

definition NotFound :: err where
  "NotFound = HTTPException 404 ''Product not found''"

definition ShapeValidationError :: err where
  "ShapeValidationError = ValidationError"

subsection \<open>The identifier codec\<close>

text \<open>
  The store's identifier (\<^verbatim>\<open>bson.ObjectId\<close>) holds a byte string: 12 bytes
  when the store assigns it. \<^verbatim>\<open>str(oid)\<close> is the lower-case hexadecimal text of
  the bytes, two characters a byte. \<^verbatim>\<open>ObjectId(text)\<close> takes a text of 24
  characters and decodes it with \<^verbatim>\<open>bytes.fromhex\<close>, which reads pairs of
  hexadecimal digits of either case and skips ASCII white space before a pair
  and at the end; the bytes it finds are the identifier, fewer than 12 when white
  space was skipped. Any other text raises \<^verbatim>\<open>InvalidId\<close>.
  \<^verbatim>\<open>ObjectId.is_valid(text)\<close> is false for the empty text, and otherwise tries
  the constructor and reports whether it raised. The library is not part of the
  repository; this is what its code does on a text.
\<close>

type_synonym ObjectId = "8 word list"

definition hexdigit :: "nat \<Rightarrow> char" where
  "hexdigit d = (if d < 10 then char_of (48 + d) else char_of (87 + d))"

definition hexval :: "char \<Rightarrow> nat option" where
  "hexval c =
     (let n = (of_char c :: nat) in
      if 48 \<le> n \<and> n \<le> 57 then Some (n - 48)
      else if 97 \<le> n \<and> n \<le> 102 then Some (n - 87)
      else if 65 \<le> n \<and> n \<le> 70 then Some (n - 55)
      else None)"

definition is_hex :: "char \<Rightarrow> bool" where
  "is_hex c = (c \<in> set ''0123456789abcdefABCDEF'')"

text \<open>ASCII white space: tab, line feed, vertical tab, form feed, carriage return, space.\<close>

definition is_space :: "char \<Rightarrow> bool" where
  "is_space c = (let n = (of_char c :: nat) in (9 \<le> n \<and> n \<le> 13) \<or> n = 32)"

text \<open>ASCII lower-casing of one character, as \<^verbatim>\<open>str.lower\<close> does on ASCII text.\<close>

definition lower_char :: "char \<Rightarrow> char" where
  "lower_char c =
     (let n = (of_char c :: nat) in
      if 65 \<le> n \<and> n \<le> 90 then char_of (n + 32) else c)"

text \<open>\<^verbatim>\<open>binascii.hexlify\<close>: two lower-case digits a byte, the high one first.\<close>

fun hexlify :: "8 word list \<Rightarrow> string" where
  "hexlify [] = []"
| "hexlify (b # bs) = hexdigit (unat b div 16) # hexdigit (unat b mod 16) # hexlify bs"

text \<open>
  \<^verbatim>\<open>bytes.fromhex\<close>: white space is skipped where a pair may start; a pair is two
  hexadecimal digits with nothing between them; \<open>None\<close> is its \<^verbatim>\<open>ValueError\<close>.
\<close>

fun fromhex :: "string \<Rightarrow> 8 word list option" where
  "fromhex [] = Some []"
| "fromhex [c] = (if is_space c then Some [] else None)"
| "fromhex (c # d # cs) =
     (if is_space c then fromhex (d # cs)
      else
        (case hexval c of
           None \<Rightarrow> None
         | Some hi \<Rightarrow>
             (case hexval d of
                None \<Rightarrow> None
              | Some lo \<Rightarrow>
                  (case fromhex cs of
                     None \<Rightarrow> None
                   | Some bs \<Rightarrow> Some (of_nat (16 * hi + lo) # bs)))))"

definition str_of_ObjectId :: "ObjectId \<Rightarrow> string" where
  "str_of_ObjectId x = hexlify x"

definition ObjectId_new :: "string \<Rightarrow> err + ObjectId" where
  "ObjectId_new t =
     (if length t = 24 then
        (case fromhex t of None \<Rightarrow> Inl InvalidId | Some bs \<Rightarrow> Inr bs)
      else Inl InvalidId)"

definition ObjectId_is_valid :: "string \<Rightarrow> bool" where
  "ObjectId_is_valid t =
     (if t = [] then False
      else (case ObjectId_new t of Inl e \<Rightarrow> False | Inr x \<Rightarrow> True))"

text \<open>
  \<^verbatim>\<open>PyObjectId.validate(v)\<close> (main.py 29-35): an identifier passes through, a text
  is checked and converted, \<^verbatim>\<open>ValueError("Invalid ObjectId")\<close> otherwise.
\<close>

datatype oid_arg = ArgOid ObjectId | ArgStr string

definition PyObjectId_validate :: "oid_arg \<Rightarrow> err + ObjectId" where
  "PyObjectId_validate v =
     (case v of
        ArgOid x \<Rightarrow> Inr x
      | ArgStr t \<Rightarrow>
          if \<not> ObjectId_is_valid t then Inl (ValueError ''Invalid ObjectId'')
          else ObjectId_new t)"

text \<open>
  The decoding of a path identifier, the first two statements of
  \<^verbatim>\<open>update_product\<close> and \<^verbatim>\<open>delete_product\<close> (main.py 161-163, 174-176):
  \<^verbatim>\<open>HTTPException(400, "Invalid product id")\<close> unless the text is valid.
\<close>

definition decode_product_id :: "string \<Rightarrow> err + ObjectId" where
  "decode_product_id product_id =
     (if \<not> ObjectId_is_valid product_id
      then Inl (HTTPException 400 ''Invalid product id'')
      else ObjectId_new product_id)"

subsection \<open>Values, and what the library decides\<close>

text \<open>
  The values a request body or a stored document holds. A dict of the program is
  a map from field names to values. \<^verbatim>\<open>float\<close> is modelled by \<open>real\<close>: the only
  operation on prices is the comparison with 0, and rounding plays no part.
\<close>

datatype pyval =
    PNone
  | PBool bool
  | PInt int
  | PFloat real
  | PStr string
  | PList "pyval list"

type_synonym dict = "string \<rightharpoonup> pyval"

text \<open>
  Five functions of the libraries are parameters of the model, because what they
  compute is theirs: the validator's conversion of a text to a number
  (\<open>str_as_float\<close>) and to a boolean (\<open>str_as_bool\<close>), the conversion of an
  integer beyond \<open>2^53\<close> in magnitude to a float, which rounds it or fails
  (\<open>int_as_float\<close>), the check of an e-mail address, which returns the normalised
  address (\<open>validate_email\<close>), and Python's \<^verbatim>\<open>int(text)\<close> (\<open>int_of_str\<close>).
  \<open>None\<close> is their error.
\<close>

record pylib =
  str_as_float :: "string \<Rightarrow> real option"
  str_as_bool :: "string \<Rightarrow> bool option"
  int_as_float :: "int \<Rightarrow> real option"
  validate_email :: "string \<Rightarrow> string option"
  int_of_str :: "string \<Rightarrow> int option"

subsection \<open>Field validation\<close>

text \<open>
  The validator's default (lax) mode per declared type. A \<^verbatim>\<open>str\<close> field takes
  a text only. A \<^verbatim>\<open>float\<close> field takes a float, and converts an integer (exactly
  up to \<open>2^53\<close> in magnitude, where every integer is a float; beyond, as the
  library rounds it or fails), a boolean (to 1 or 0) and a numeric text. A
  \<^verbatim>\<open>bool\<close> field takes a boolean, and converts the numbers 0 and 1 and the texts
  the library lists. \<open>None\<close> is a validation error; the argument \<open>None\<close> is an
  absent key.
\<close>

definition coerce_float :: "pylib \<Rightarrow> pyval \<Rightarrow> real option" where
  "coerce_float L v =
     (case v of
        PFloat r \<Rightarrow> Some r
      | PInt i \<Rightarrow> (if \<bar>i\<bar> \<le> 2 ^ 53 then Some (of_int i) else int_as_float L i)
      | PBool b \<Rightarrow> Some (if b then 1 else 0)
      | PStr s \<Rightarrow> str_as_float L s
      | _ \<Rightarrow> None)"

definition coerce_bool :: "pylib \<Rightarrow> pyval \<Rightarrow> bool option" where
  "coerce_bool L v =
     (case v of
        PBool b \<Rightarrow> Some b
      | PInt i \<Rightarrow> (if i = 0 then Some False else if i = 1 then Some True else None)
      | PFloat r \<Rightarrow> (if r = 0 then Some False else if r = 1 then Some True else None)
      | PStr s \<Rightarrow> str_as_bool L s
      | _ \<Rightarrow> None)"

fun str_items :: "pyval list \<Rightarrow> string list option" where
  "str_items [] = Some []"
| "str_items (v # vs) =
     (case v of
        PStr s \<Rightarrow> (case str_items vs of None \<Rightarrow> None | Some ss \<Rightarrow> Some (s # ss))
      | _ \<Rightarrow> None)"

text \<open>\<^verbatim>\<open>f: str\<close>: required.\<close>

definition field_str :: "pyval option \<Rightarrow> string option" where
  "field_str v = (case v of Some (PStr s) \<Rightarrow> Some s | _ \<Rightarrow> None)"

text \<open>\<^verbatim>\<open>f: str = d\<close>.\<close>

definition field_str_default :: "string \<Rightarrow> pyval option \<Rightarrow> string option" where
  "field_str_default d v =
     (case v of None \<Rightarrow> Some d | Some (PStr s) \<Rightarrow> Some s | _ \<Rightarrow> None)"

text \<open>\<^verbatim>\<open>f: Optional[str] = None\<close>.\<close>

definition field_opt_str :: "pyval option \<Rightarrow> string option option" where
  "field_opt_str v =
     (case v of
        None \<Rightarrow> Some None
      | Some PNone \<Rightarrow> Some None
      | Some (PStr s) \<Rightarrow> Some (Some s)
      | _ \<Rightarrow> None)"

text \<open>\<^verbatim>\<open>f: Optional[EmailStr] = None\<close>.\<close>

definition field_opt_email :: "pylib \<Rightarrow> pyval option \<Rightarrow> string option option" where
  "field_opt_email L v =
     (case v of
        None \<Rightarrow> Some None
      | Some PNone \<Rightarrow> Some None
      | Some (PStr s) \<Rightarrow> (case validate_email L s of None \<Rightarrow> None | Some a \<Rightarrow> Some (Some a))
      | _ \<Rightarrow> None)"

text \<open>\<^verbatim>\<open>price: float = Field(ge=0)\<close>: required, and at least 0.\<close>

definition field_price :: "pylib \<Rightarrow> pyval option \<Rightarrow> real option" where
  "field_price L v =
     (case v of
        None \<Rightarrow> None
      | Some x \<Rightarrow>
          (case coerce_float L x of
             None \<Rightarrow> None
           | Some r \<Rightarrow> if 0 \<le> r then Some r else None))"

text \<open>\<^verbatim>\<open>f: bool = d\<close>.\<close>

definition field_bool_default :: "pylib \<Rightarrow> bool \<Rightarrow> pyval option \<Rightarrow> bool option" where
  "field_bool_default L d v = (case v of None \<Rightarrow> Some d | Some x \<Rightarrow> coerce_bool L x)"

text \<open>\<^verbatim>\<open>features: Optional[List[str]] = []\<close>.\<close>

definition field_opt_str_list :: "pyval option \<Rightarrow> string list option option" where
  "field_opt_str_list v =
     (case v of
        None \<Rightarrow> Some (Some [])
      | Some PNone \<Rightarrow> Some None
      | Some (PList xs) \<Rightarrow> (case str_items xs of None \<Rightarrow> None | Some ss \<Rightarrow> Some (Some ss))
      | _ \<Rightarrow> None)"

subsection \<open>The shapes (main.py 51-77)\<close>

record ProductCreate =
  name :: string
  brand :: string
  description :: "string option"
  price :: real
  image_url :: "string option"
  category :: "string option"
  in_stock :: bool
  features :: "string list option"

text \<open>\<^verbatim>\<open>class Product(ProductCreate): id: str\<close>. The field is \<open>id'\<close> here.\<close>

record Product = ProductCreate +
  id' :: string

record ContactMessageIn =
  name' :: string
  email :: string
  message :: string

record SiteSettings =
  hero_title :: string
  hero_subtitle :: string
  contact_email :: "string option"
  phone :: "string option"
  address :: "string option"

text \<open>
  \<^verbatim>\<open>ProductCreate(**kw)\<close>: every declared field is validated, an undeclared key is
  ignored (the library's default), and one failing field fails the whole.
\<close>

definition ProductCreate_validate :: "pylib \<Rightarrow> dict \<Rightarrow> err + ProductCreate" where
  "ProductCreate_validate L kw =
     (case
        Option.bind (field_str (kw ''name'')) (\<lambda>n.
        Option.bind (field_str (kw ''brand'')) (\<lambda>b.
        Option.bind (field_opt_str (kw ''description'')) (\<lambda>d.
        Option.bind (field_price L (kw ''price'')) (\<lambda>p.
        Option.bind (field_opt_str (kw ''image_url'')) (\<lambda>i.
        Option.bind (field_opt_str (kw ''category'')) (\<lambda>c.
        Option.bind (field_bool_default L True (kw ''in_stock'')) (\<lambda>s.
        Option.bind (field_opt_str_list (kw ''features'')) (\<lambda>f.
          Some \<lparr>name = n, brand = b, description = d, price = p, image_url = i,
                category = c, in_stock = s, features = f\<rparr>))))))))
      of None \<Rightarrow> Inl ValidationError | Some p \<Rightarrow> Inr p)"

definition Product_validate :: "pylib \<Rightarrow> dict \<Rightarrow> err + Product" where
  "Product_validate L kw =
     (case ProductCreate_validate L kw of
        Inl e \<Rightarrow> Inl e
      | Inr p \<Rightarrow>
          (case field_str (kw ''id'') of
             None \<Rightarrow> Inl ValidationError
           | Some i \<Rightarrow> Inr (ProductCreate.extend p (Product.fields i))))"

definition SiteSettings_validate :: "pylib \<Rightarrow> dict \<Rightarrow> err + SiteSettings" where
  "SiteSettings_validate L kw =
     (case
        Option.bind (field_str_default ''Premium White Goods'' (kw ''hero_title'')) (\<lambda>t.
        Option.bind (field_str_default ''Reliable appliances for every home.''
                       (kw ''hero_subtitle'')) (\<lambda>s.
        Option.bind (field_opt_email L (kw ''contact_email'')) (\<lambda>e.
        Option.bind (field_opt_str (kw ''phone'')) (\<lambda>p.
        Option.bind (field_opt_str (kw ''address'')) (\<lambda>a.
          Some \<lparr>hero_title = t, hero_subtitle = s, contact_email = e, phone = p,
                address = a\<rparr>)))))
      of None \<Rightarrow> Inl ValidationError | Some x \<Rightarrow> Inr x)"

text \<open>\<^verbatim>\<open>SiteSettings()\<close>: every field at its default.\<close>

definition SiteSettings_default :: SiteSettings where
  "SiteSettings_default =
     \<lparr>hero_title = ''Premium White Goods'',
      hero_subtitle = ''Reliable appliances for every home.'',
      contact_email = None, phone = None, address = None\<rparr>"

text \<open>\<^verbatim>\<open>model_dump()\<close>: the fields as a dict.\<close>

definition dump_opt_str :: "string option \<Rightarrow> pyval" where
  "dump_opt_str v = (case v of None \<Rightarrow> PNone | Some s \<Rightarrow> PStr s)"

definition dump_opt_str_list :: "string list option \<Rightarrow> pyval" where
  "dump_opt_str_list v = (case v of None \<Rightarrow> PNone | Some ss \<Rightarrow> PList (map PStr ss))"

definition ProductCreate_fields :: "string list" where
  "ProductCreate_fields =
     [''name'', ''brand'', ''description'', ''price'', ''image_url'', ''category'',
      ''in_stock'', ''features'']"

definition ProductCreate_model_dump :: "ProductCreate \<Rightarrow> dict" where
  "ProductCreate_model_dump p =
     map_of
       [(''name'', PStr (name p)),
        (''brand'', PStr (brand p)),
        (''description'', dump_opt_str (description p)),
        (''price'', PFloat (price p)),
        (''image_url'', dump_opt_str (image_url p)),
        (''category'', dump_opt_str (category p)),
        (''in_stock'', PBool (in_stock p)),
        (''features'', dump_opt_str_list (features p))]"

definition SiteSettings_model_dump :: "SiteSettings \<Rightarrow> dict" where
  "SiteSettings_model_dump s =
     map_of
       [(''hero_title'', PStr (hero_title s)),
        (''hero_subtitle'', PStr (hero_subtitle s)),
        (''contact_email'', dump_opt_str (contact_email s)),
        (''phone'', dump_opt_str (phone s)),
        (''address'', dump_opt_str (address s))]"

definition ContactMessageIn_model_dump :: "ContactMessageIn \<Rightarrow> dict" where
  "ContactMessageIn_model_dump m =
     map_of
       [(''name'', PStr (name' m)),
        (''email'', PStr (email m)),
        (''message'', PStr (message m))]"

subsection \<open>The process environment and the admin gate (main.py 38-45)\<close>

text \<open>\<^verbatim>\<open>os.getenv\<close>: a variable is unset (\<open>None\<close>) or holds a text, maybe empty.\<close>

record environ =
  ADMIN_TOKEN :: "string option"
  SMTP_HOST :: "string option"
  SMTP_PORT :: "string option"
  SMTP_USER :: "string option"
  SMTP_PASS :: "string option"
  CONTACT_TO_EMAIL :: "string option"

text \<open>Python's truth value of an optional text: \<^verbatim>\<open>None\<close> and \<^verbatim>\<open>""\<close> are false.\<close>

definition truthy :: "string option \<Rightarrow> bool" where
  "truthy v = (case v of None \<Rightarrow> False | Some s \<Rightarrow> s \<noteq> [])"

definition py_or :: "string option \<Rightarrow> string option \<Rightarrow> string option" where
  "py_or a b = (if truthy a then a else b)"

text \<open>\<^verbatim>\<open>os.getenv(name, default)\<close>.\<close>

definition getenv_default :: "string option \<Rightarrow> string \<Rightarrow> string" where
  "getenv_default v d = (case v of None \<Rightarrow> d | Some s \<Rightarrow> s)"

definition admin_token_required :: "environ \<Rightarrow> string option \<Rightarrow> err + bool" where
  "admin_token_required env x_admin_token =
     (let admin_token = ADMIN_TOKEN env in
      if \<not> truthy admin_token then
        Inl (HTTPException 500 ''ADMIN_TOKEN not configured on server'')
      else if x_admin_token \<noteq> admin_token then
        Inl (HTTPException 401 ''Invalid admin token'')
      else Inr True)"

subsection \<open>The document store\<close>

text \<open>
  A stored document is its identifier (the \<^verbatim>\<open>_id\<close> key, which the store gives
  every document) and its other fields. A collection is the list of its documents
  in the store's order. \<open>oplog\<close> lists the calls the store has served, so that
  "the store was not reached" can be said; \<open>available\<close> is false for a store that
  cannot be reached, whose every call raises.
\<close>

record document =
  doc_id :: ObjectId
  doc_fields :: dict

datatype store_op =
    FindOne string
  | FindMany string
  | InsertOne string
  | UpdateOne string
  | DeleteOne string

record store =
  available :: bool
  colls :: "string \<Rightarrow> document list"
  oplog :: "store_op list"

text \<open>The two filters the handlers use: \<^verbatim>\<open>{}\<close> and \<^verbatim>\<open>{"_id": oid}\<close>.\<close>

datatype query = Q_all | Q_id ObjectId

fun matches :: "query \<Rightarrow> document \<Rightarrow> bool" where
  "matches Q_all d = True"
| "matches (Q_id x) d = (doc_id d = x)"

fun update_first :: "(document \<Rightarrow> bool) \<Rightarrow> (document \<Rightarrow> document) \<Rightarrow> document list \<Rightarrow> document list" where
  "update_first P f [] = []"
| "update_first P f (d # ds) = (if P d then f d # ds else d # update_first P f ds)"

fun remove_first :: "(document \<Rightarrow> bool) \<Rightarrow> document list \<Rightarrow> document list" where
  "remove_first P [] = []"
| "remove_first P (d # ds) = (if P d then ds else d # remove_first P ds)"

definition logged :: "store_op \<Rightarrow> store \<Rightarrow> store" where
  "logged op st = st\<lparr>oplog := oplog st @ [op]\<rparr>"

text \<open>\<^verbatim>\<open>db[coll].find_one(q)\<close>: the first matching document, or \<^verbatim>\<open>None\<close>.\<close>

definition find_one :: "store \<Rightarrow> string \<Rightarrow> query \<Rightarrow> err + (document option \<times> store)" where
  "find_one st coll q =
     (if \<not> available st then Inl StoreFailure
      else Inr (List.find (matches q) (colls st coll), logged (FindOne coll) st))"

text \<open>
  \<^verbatim>\<open>db[coll].update_one(q, {"$set": flds})\<close>: in the first matching document the
  fields of \<open>flds\<close> are set and every other field is kept; the result is
  \<^verbatim>\<open>matched_count\<close>.
\<close>

definition update_one :: "store \<Rightarrow> string \<Rightarrow> query \<Rightarrow> dict \<Rightarrow> err + (nat \<times> store)" where
  "update_one st coll q flds =
     (if \<not> available st then Inl StoreFailure
      else
        (case List.find (matches q) (colls st coll) of
           None \<Rightarrow> Inr (0, logged (UpdateOne coll) st)
         | Some _ \<Rightarrow>
             Inr (1, logged (UpdateOne coll)
                      (st\<lparr>colls := (colls st)
                           (coll := update_first (matches q)
                                      (\<lambda>d. d\<lparr>doc_fields := doc_fields d ++ flds\<rparr>)
                                      (colls st coll))\<rparr>))))"

text \<open>\<^verbatim>\<open>db[coll].delete_one(q)\<close>: the result is \<^verbatim>\<open>deleted_count\<close>.\<close>

definition delete_one :: "store \<Rightarrow> string \<Rightarrow> query \<Rightarrow> err + (nat \<times> store)" where
  "delete_one st coll q =
     (if \<not> available st then Inl StoreFailure
      else
        (case List.find (matches q) (colls st coll) of
           None \<Rightarrow> Inr (0, logged (DeleteOne coll) st)
         | Some _ \<Rightarrow>
             Inr (1, logged (DeleteOne coll)
                      (st\<lparr>colls := (colls st)
                           (coll := remove_first (matches q) (colls st coll))\<rparr>))))"

text \<open>
  Modelled from the spec: \<^verbatim>\<open>create_document(collection_name, data)\<close> of
  \<^verbatim>\<open>database.py\<close>, which is not among the sources. It inserts the document (a
  dict, or the field dump of a model instance) into the named collection under a
  newly assigned identifier and returns the identifier's encoded text; a failure
  of the store propagates. The new identifier is the store's choice and an
  argument here.
\<close>

definition create_document :: "store \<Rightarrow> string \<Rightarrow> dict \<Rightarrow> ObjectId \<Rightarrow> err + (string \<times> store)" where
  "create_document st collection_name data new_id =
     (if \<not> available st then Inl StoreFailure
      else
        Inr (str_of_ObjectId new_id,
             logged (InsertOne collection_name)
               (st\<lparr>colls := (colls st)
                    (collection_name :=
                       colls st collection_name @ [\<lparr>doc_id = new_id, doc_fields = data\<rparr>])\<rparr>)))"


subsection \<open>Products (main.py 141-180)\<close>

text \<open>
  \<^verbatim>\<open>d["id"] = str(d.pop("_id")); Product(**d)\<close>, the mapping of a stored document to
  the wire shape in \<^verbatim>\<open>list_products\<close> and in the re-read of \<^verbatim>\<open>update_product\<close>.
\<close>

definition Product_of_document :: "pylib \<Rightarrow> document \<Rightarrow> err + Product" where
  "Product_of_document L d =
     Product_validate L ((doc_fields d)(''id'' \<mapsto> PStr (str_of_ObjectId (doc_id d))))"



definition create_product :: "pylib \<Rightarrow> store \<Rightarrow> ObjectId \<Rightarrow> ProductCreate \<Rightarrow> (err + Product) \<times> store" where
  "create_product L st new_id payload =
     (let doc = ProductCreate_model_dump payload in
      case create_document st ''product'' doc new_id of
        Inl e \<Rightarrow> (Inl e, st)
      | Inr (inserted_id, st1) \<Rightarrow>
          (Product_validate L (doc(''id'' \<mapsto> PStr inserted_id)), st1))"

definition update_product :: "pylib \<Rightarrow> store \<Rightarrow> string \<Rightarrow> ProductCreate \<Rightarrow> (err + Product) \<times> store" where
  "update_product L st product_id payload =
     (case decode_product_id product_id of
        Inl e \<Rightarrow> (Inl e, st)
      | Inr oid \<Rightarrow>
          (case update_one st ''product'' (Q_id oid) (ProductCreate_model_dump payload) of
             Inl e \<Rightarrow> (Inl e, st)
           | Inr (matched_count, st1) \<Rightarrow>
               if matched_count = 0 then (Inl (HTTPException 404 ''Product not found''), st1)
               else
                 (case find_one st1 ''product'' (Q_id oid) of
                    Inl e \<Rightarrow> (Inl e, st1)
                  | Inr (None, st2) \<Rightarrow> (Inl AttributeError, st2)
                  | Inr (Some updated, st2) \<Rightarrow> (Product_of_document L updated, st2))))"

text \<open>\<^verbatim>\<open>delete_product\<close> returns \<^verbatim>\<open>{"success": True}\<close>: the flag.\<close>

definition delete_product :: "store \<Rightarrow> string \<Rightarrow> (err + bool) \<times> store" where
  "delete_product st product_id =
     (case decode_product_id product_id of
        Inl e \<Rightarrow> (Inl e, st)
      | Inr oid \<Rightarrow>
          (case delete_one st ''product'' (Q_id oid) of
             Inl e \<Rightarrow> (Inl e, st)
           | Inr (deleted_count, st1) \<Rightarrow>
               if deleted_count = 0 then (Inl (HTTPException 404 ''Product not found''), st1)
               else (Inr True, st1)))"

subsection \<open>Site settings (main.py 186-205)\<close>

definition get_settings :: "pylib \<Rightarrow> store \<Rightarrow> ObjectId \<Rightarrow> (err + SiteSettings) \<times> store" where
  "get_settings L st new_id =
     (case find_one st ''sitesettings'' Q_all of
        Inl e \<Rightarrow> (Inl e, st)
      | Inr (None, st1) \<Rightarrow>
          (let default = SiteSettings_default in
           case create_document st1 ''sitesettings'' (SiteSettings_model_dump default) new_id of
             Inl e \<Rightarrow> (Inl e, st1)
           | Inr (_, st2) \<Rightarrow> (Inr default, st2))
      | Inr (Some doc, st1) \<Rightarrow> (SiteSettings_validate L (doc_fields doc), st1))"

definition update_settings :: "store \<Rightarrow> ObjectId \<Rightarrow> SiteSettings \<Rightarrow> (err + SiteSettings) \<times> store" where
  "update_settings st new_id payload =
     (case find_one st ''sitesettings'' Q_all of
        Inl e \<Rightarrow> (Inl e, st)
      | Inr (None, st1) \<Rightarrow>
          (case create_document st1 ''sitesettings'' (SiteSettings_model_dump payload) new_id of
             Inl e \<Rightarrow> (Inl e, st1)
           | Inr (_, st2) \<Rightarrow> (Inr payload, st2))
      | Inr (Some existing, st1) \<Rightarrow>
          (case update_one st1 ''sitesettings'' (Q_id (doc_id existing))
                  (SiteSettings_model_dump payload) of
             Inl e \<Rightarrow> (Inl e, st1)
           | Inr (_, st2) \<Rightarrow> (Inr payload, st2)))"

subsection \<open>The mutating endpoints\<close>

text \<open>
  \<^verbatim>\<open>dependencies=[Depends(admin_token_required)]\<close>: the gate runs before the
  handler, and its exception is the response.
\<close>

definition with_admin :: "environ \<Rightarrow> string option \<Rightarrow> store \<Rightarrow> (err + 'a) \<times> store \<Rightarrow> (err + 'a) \<times> store" where
  "with_admin env x_admin_token st handler =
     (case admin_token_required env x_admin_token of
        Inl e \<Rightarrow> (Inl e, st)
      | Inr _ \<Rightarrow> handler)"

definition POST_products :: "pylib \<Rightarrow> environ \<Rightarrow> string option \<Rightarrow> store \<Rightarrow> ObjectId \<Rightarrow> ProductCreate \<Rightarrow> (err + Product) \<times> store" where
  "POST_products L env tok st new_id payload =
     with_admin env tok st (create_product L st new_id payload)"

definition PUT_product :: "pylib \<Rightarrow> environ \<Rightarrow> string option \<Rightarrow> store \<Rightarrow> string \<Rightarrow> ProductCreate \<Rightarrow> (err + Product) \<times> store" where
  "PUT_product L env tok st product_id payload =
     with_admin env tok st (update_product L st product_id payload)"

definition DELETE_product :: "environ \<Rightarrow> string option \<Rightarrow> store \<Rightarrow> string \<Rightarrow> (err + bool) \<times> store" where
  "DELETE_product env tok st product_id =
     with_admin env tok st (delete_product st product_id)"

definition PUT_settings :: "environ \<Rightarrow> string option \<Rightarrow> store \<Rightarrow> ObjectId \<Rightarrow> SiteSettings \<Rightarrow> (err + SiteSettings) \<times> store" where
  "PUT_settings env tok st new_id payload =
     with_admin env tok st (update_settings st new_id payload)"

subsection \<open>Contact intake (main.py 211-247)\<close>

record EmailMessage =
  Subject :: string
  From :: string
  To :: string
  content :: string

text \<open>
  What the \<^verbatim>\<open>try\<close> block asks of the mail relay: the connection
  (\<^verbatim>\<open>smtplib.SMTP(smtp_host, smtp_port, timeout=10)\<close>), \<^verbatim>\<open>starttls\<close>, the login
  when both a user and a password are set, and one message.
\<close>

record smtp_session =
  host :: string
  port :: int
  login :: "(string \<times> string) option"
  msg :: EmailMessage

text \<open>
  How the \<^verbatim>\<open>try\<close> block ends, which the relay decides: \<^verbatim>\<open>send_message\<close>
  returned and nothing was raised; an exception with text \<open>e\<close> was raised before
  \<^verbatim>\<open>sent = True\<close>; or it was raised after, on leaving the \<^verbatim>\<open>with\<close> block.
\<close>

datatype smtp_outcome =
    Delivered
  | Failed string
  | DeliveredThenFailed string

record contact_response =
  stored :: bool
  email_sent :: bool
  error :: "string option"

text \<open>The text of a variable that is known to be set.\<close>

definition text_of :: "string option \<Rightarrow> string" where
  "text_of v = (case v of None \<Rightarrow> [] | Some s \<Rightarrow> s)"

definition send_contact_message :: "pylib \<Rightarrow> (smtp_session \<Rightarrow> smtp_outcome) \<Rightarrow> environ \<Rightarrow> store \<Rightarrow> ObjectId \<Rightarrow> ContactMessageIn \<Rightarrow> (err + contact_response) \<times> store" where
  "send_contact_message L relay env st new_id payload =
     (case create_document st ''contactmessage'' (ContactMessageIn_model_dump payload) new_id of
        Inl e \<Rightarrow> (Inl e, st)
      | Inr (_, st1) \<Rightarrow>
          (let smtp_host = SMTP_HOST env in
           case int_of_str L (getenv_default (SMTP_PORT env) ''587'') of
             None \<Rightarrow>
               (Inl (ValueError (''invalid literal for int() with base 10: '' @ [CHR 0x27]
                                  @ getenv_default (SMTP_PORT env) ''587'' @ [CHR 0x27])), st1)
           | Some smtp_port \<Rightarrow>
               (let smtp_user = SMTP_USER env;
                    smtp_pass = SMTP_PASS env;
                    to_email = py_or (CONTACT_TO_EMAIL env) (SMTP_USER env)
                in
                if truthy smtp_host \<and> truthy to_email then
                  (case relay
                          \<lparr>host = text_of smtp_host,
                           port = smtp_port,
                           login =
                             (if truthy smtp_user \<and> truthy smtp_pass
                              then Some (text_of smtp_user, text_of smtp_pass) else None),
                           msg =
                             \<lparr>Subject = ''New contact message from '' @ name' payload,
                              From = text_of (py_or smtp_user to_email),
                              To = text_of to_email,
                              content =
                                ''Name: '' @ name' payload @ [CHR 0x0A] @
                                ''Email: '' @ email payload @ [CHR 0x0A, CHR 0x0A] @
                                ''Message:'' @ [CHR 0x0A] @ message payload\<rparr>\<rparr>
                   of
                     Delivered \<Rightarrow>
                       (Inr \<lparr>stored = True, email_sent = True, error = None\<rparr>, st1)
                   | Failed e \<Rightarrow>
                       (Inr \<lparr>stored = True, email_sent = False, error = Some e\<rparr>, st1)
                   | DeliveredThenFailed e \<Rightarrow>
                       (Inr \<lparr>stored = True, email_sent = True, error = Some e\<rparr>, st1))
                else
                  (Inr \<lparr>stored = True, email_sent = False,
                        error = Some ''SMTP not configured on server''\<rparr>, st1))))"

subsection \<open>The accepted inputs, said without the validator\<close>

text \<open>
  What the declarations of \<^verbatim>\<open>ProductCreate\<close> ask of each key of an input, as
  predicates on the input that call none of the validator's functions: a text;
  an optional text (absent, \<^verbatim>\<open>None\<close> or a text); a price that is a number of
  at least 0, a boolean counting as 1 or 0; a stock flag that is absent, a boolean
  or the number 0 or 1; an optional list of texts.
\<close>

definition is_text :: "pyval option \<Rightarrow> bool" where
  "is_text v = (case v of Some (PStr s) \<Rightarrow> True | _ \<Rightarrow> False)"

definition is_opt_text :: "pyval option \<Rightarrow> bool" where
  "is_opt_text v =
     (case v of None \<Rightarrow> True | Some PNone \<Rightarrow> True | Some (PStr s) \<Rightarrow> True | _ \<Rightarrow> False)"

definition price_ok :: "pyval option \<Rightarrow> bool" where
  "price_ok v =
     (case v of
        Some (PFloat r) \<Rightarrow> 0 \<le> r
      | Some (PInt i) \<Rightarrow> 0 \<le> i
      | Some (PBool b) \<Rightarrow> True
      | _ \<Rightarrow> False)"

definition in_stock_ok :: "pyval option \<Rightarrow> bool" where
  "in_stock_ok v =
     (case v of
        None \<Rightarrow> True
      | Some (PBool b) \<Rightarrow> True
      | Some (PInt i) \<Rightarrow> i = 0 \<or> i = 1
      | Some (PFloat r) \<Rightarrow> r = 0 \<or> r = 1
      | _ \<Rightarrow> False)"

fun is_PStr :: "pyval \<Rightarrow> bool" where
  "is_PStr (PStr s) = True"
| "is_PStr v = False"

definition is_opt_text_list :: "pyval option \<Rightarrow> bool" where
  "is_opt_text_list v =
     (case v of
        None \<Rightarrow> True
      | Some PNone \<Rightarrow> True
      | Some (PList xs) \<Rightarrow> list_all is_PStr xs
      | _ \<Rightarrow> False)"

definition ProductCreate_accepts :: "dict \<Rightarrow> bool" where
  "ProductCreate_accepts kw =
     (is_text (kw ''name'') \<and> is_text (kw ''brand'')
      \<and> is_opt_text (kw ''description'')
      \<and> price_ok (kw ''price'')
      \<and> is_opt_text (kw ''image_url'')
      \<and> is_opt_text (kw ''category'')
      \<and> in_stock_ok (kw ''in_stock'')
      \<and> is_opt_text_list (kw ''features''))"

text \<open>
  The inputs whose fate the libraries' parameters decide, and of which the
  statements below say nothing: a text given as price or as stock flag, and an
  integer price beyond \<open>2^53\<close> in magnitude.
\<close>

definition needs_parsing :: "dict \<Rightarrow> bool" where
  "needs_parsing kw =
     ((case kw ''price'' of
         Some (PStr s) \<Rightarrow> True
       | Some (PInt i) \<Rightarrow> 2 ^ 53 < \<bar>i\<bar>
       | _ \<Rightarrow> False)
      \<or> (case kw ''in_stock'' of Some (PStr s) \<Rightarrow> True | _ \<Rightarrow> False))"

text \<open>
  The payload an accepted input stands for: each given value, an absent optional
  text as \<open>None\<close>, an absent stock flag as true, absent features as the empty list.
\<close>

definition text_value :: "pyval option \<Rightarrow> string" where
  "text_value v = (case v of Some (PStr s) \<Rightarrow> s | _ \<Rightarrow> [])"

definition opt_text_value :: "pyval option \<Rightarrow> string option" where
  "opt_text_value v = (case v of Some (PStr s) \<Rightarrow> Some s | _ \<Rightarrow> None)"

definition price_value :: "pyval option \<Rightarrow> real" where
  "price_value v =
     (case v of
        Some (PFloat r) \<Rightarrow> r
      | Some (PInt i) \<Rightarrow> of_int i
      | Some (PBool b) \<Rightarrow> (if b then 1 else 0)
      | _ \<Rightarrow> 0)"

definition in_stock_value :: "pyval option \<Rightarrow> bool" where
  "in_stock_value v =
     (case v of
        None \<Rightarrow> True
      | Some (PBool b) \<Rightarrow> b
      | Some (PInt i) \<Rightarrow> i = 1
      | Some (PFloat r) \<Rightarrow> r = 1
      | _ \<Rightarrow> False)"

definition features_value :: "pyval option \<Rightarrow> string list option" where
  "features_value v =
     (case v of
        None \<Rightarrow> Some []
      | Some (PList xs) \<Rightarrow> Some (map (\<lambda>x. text_value (Some x)) xs)
      | _ \<Rightarrow> None)"

definition expected_payload :: "dict \<Rightarrow> ProductCreate" where
  "expected_payload kw =
     \<lparr>name = text_value (kw ''name''),
      brand = text_value (kw ''brand''),
      description = opt_text_value (kw ''description''),
      price = price_value (kw ''price''),
      image_url = opt_text_value (kw ''image_url''),
      category = opt_text_value (kw ''category''),
      in_stock = in_stock_value (kw ''in_stock''),
      features = features_value (kw ''features'')\<rparr>"

subsection \<open>Concrete instances\<close>

text \<open>
  A stand-in for the libraries' parameters in the instances below: it reads no
  number and no boolean from a text, converts no integer beyond \<open>2^53\<close>, takes
  every address as it is, and reads the port \<^verbatim>\<open>587\<close> and no other text.
\<close>

definition lib_example :: pylib where
  "lib_example =
     \<lparr>str_as_float = (\<lambda>s. None), str_as_bool = (\<lambda>s. None),
      int_as_float = (\<lambda>i. None),
      validate_email = (\<lambda>s. Some s),
      int_of_str = (\<lambda>s. if s = ''587'' then Some 587 else None)\<rparr>"

text \<open>The example of the specification: a name, a brand and a price.\<close>

definition body_example :: dict where
  "body_example =
     map_of [(''name'', PStr ''Fridge X''), (''brand'', PStr ''Acme''),
             (''price'', PFloat (49999 / 100))]"

definition payload_example :: ProductCreate where
  "payload_example =
     \<lparr>name = ''Fridge X'', brand = ''Acme'', description = None, price = 49999 / 100,
      image_url = None, category = None, in_stock = True, features = Some []\<rparr>"

definition body_empty_name :: dict where
  "body_empty_name =
     map_of [(''name'', PStr []), (''brand'', PStr []), (''price'', PFloat 1)]"

definition body_negative_price :: dict where
  "body_negative_price =
     map_of [(''name'', PStr ''Fridge X''), (''brand'', PStr ''Acme''),
             (''price'', PFloat (- 5))]"

definition env_example :: environ where
  "env_example =
     \<lparr>ADMIN_TOKEN = Some ''s3cret'', SMTP_HOST = None, SMTP_PORT = None,
      SMTP_USER = None, SMTP_PASS = None, CONTACT_TO_EMAIL = None\<rparr>"

definition env_unset :: environ where
  "env_unset = env_example\<lparr>ADMIN_TOKEN := None\<rparr>"

definition env_empty :: environ where
  "env_empty = env_example\<lparr>ADMIN_TOKEN := Some []\<rparr>"

definition env_smtp :: environ where
  "env_smtp =
     env_example\<lparr>SMTP_HOST := Some ''mail.example.org'',
                  SMTP_USER := Some ''shop@example.org'', SMTP_PASS := Some ''pw''\<rparr>"

text \<open>Identifiers of 12 bytes, and the texts that spell them.\<close>

definition oid_zero :: ObjectId where
  "oid_zero = replicate 12 0"

definition oid_a :: ObjectId where
  "oid_a = replicate 11 0 @ [10]"

definition oid_b :: ObjectId where
  "oid_b = replicate 11 0 @ [11]"

definition text_zero :: string where
  "text_zero = ''000000000000000000000000''"

definition text_a :: string where
  "text_a = ''00000000000000000000000a''"

definition text_A :: string where
  "text_A = ''00000000000000000000000A''"

text \<open>A text of 24 characters that ends in two spaces.\<close>

definition text_spaced :: string where
  "text_spaced = ''0000000000000000000000  ''"

definition env_bad_port :: environ where
  "env_bad_port = env_smtp\<lparr>SMTP_PORT := Some ''abc''\<rparr>"

definition store_empty :: store where
  "store_empty = \<lparr>available = True, colls = (\<lambda>c. []), oplog = []\<rparr>"

definition store_down :: store where
  "store_down = \<lparr>available = False, colls = (\<lambda>c. []), oplog = []\<rparr>"

text \<open>A product document that holds a field the shape does not declare.\<close>

definition doc_legacy :: document where
  "doc_legacy =
     \<lparr>doc_id = oid_a,
      doc_fields =
        map_of [(''name'', PStr ''Old''), (''brand'', PStr ''Acme''),
                (''price'', PFloat 5), (''legacy_sku'', PStr ''K-1'')]\<rparr>"

definition store_legacy :: store where
  "store_legacy =
     \<lparr>available = True, colls = (\<lambda>c. [])(''product'' := [doc_legacy]), oplog = []\<rparr>"




definition contact_example :: ContactMessageIn where
  "contact_example =
     \<lparr>name' = ''Ada'', email = ''ada@example.org'', message = ''Hello''\<rparr>"

definition relay_down :: "smtp_session \<Rightarrow> smtp_outcome" where
  "relay_down s = Failed ''Connection refused''"

subsection \<open>The identifier codec: proofs\<close>

lemma hexval_hexdigit: "d < 16 \<Longrightarrow> hexval (hexdigit d) = Some d"
  by (auto simp: hexval_def hexdigit_def Let_def)

lemma hexdigit_not_space: "d < 16 \<Longrightarrow> \<not> is_space (hexdigit d)"
  by (auto simp: is_space_def hexdigit_def Let_def)

lemma hexval_lower: "hexval c = Some d \<Longrightarrow> hexdigit d = lower_char c \<and> d < 16"
  by (auto simp: hexval_def hexdigit_def lower_char_def Let_def split: if_splits)

lemma hexval_not_space: "hexval c = Some d \<Longrightarrow> \<not> is_space c"
  by (auto simp: hexval_def is_space_def Let_def split: if_splits)

lemma byte_nibbles:
  fixes b :: "8 word"
  shows "unat b div 16 < 16" and "of_nat (16 * (unat b div 16) + unat b mod 16) = b"
proof -
  have "unat b < 256" using unsigned_less[of b] by simp
  then show "unat b div 16 < 16" by simp
  show "of_nat (16 * (unat b div 16) + unat b mod 16) = b" by simp
qed

lemma unat_byte:
  assumes "hi < 16" "lo < 16"
  shows "unat (of_nat (16 * hi + lo) :: 8 word) = 16 * hi + lo"
proof -
  have lt: "16 * hi + lo < 256" using assms by simp
  have "unat (of_nat (16 * hi + lo) :: 8 word) = (16 * hi + lo) mod 2 ^ LENGTH(8)"
    by (rule unat_of_nat)
  also have "\<dots> = 16 * hi + lo" using lt by simp
  finally show ?thesis .
qed

lemma fromhex_hexlify: "fromhex (hexlify bs) = Some bs"
  by (induction bs) (simp_all add: hexdigit_not_space hexval_hexdigit byte_nibbles)

lemma length_hexlify: "length (hexlify bs) = 2 * length bs"
  by (induction bs) simp_all

lemma hexlify_inj: "hexlify x = hexlify y \<Longrightarrow> x = y"
proof -
  assume "hexlify x = hexlify y"
  then have "fromhex (hexlify x) = fromhex (hexlify y)" by simp
  then show "x = y" by (simp add: fromhex_hexlify)
qed

lemma ObjectId_new_str: "length x = 12 \<Longrightarrow> ObjectId_new (str_of_ObjectId x) = Inr x"
  by (simp add: ObjectId_new_def str_of_ObjectId_def length_hexlify fromhex_hexlify)

lemma hexlify_fromhex:
  "fromhex t = Some bs \<Longrightarrow> hexlify bs = map lower_char (filter (\<lambda>c. \<not> is_space c) t)"
proof (induction t arbitrary: bs rule: fromhex.induct)
  case 1
  then show ?case by simp
next
  case (2 c)
  then show ?case by (simp split: if_splits)
next
  case (3 c d cs)
  show ?case
  proof (cases "is_space c")
    case True
    with 3 show ?thesis by simp
  next
    case False
    with "3.prems" obtain hi lo bs' where hi: "hexval c = Some hi" and lo: "hexval d = Some lo"
      and r: "fromhex cs = Some bs'" and bs: "bs = of_nat (16 * hi + lo) # bs'"
      by (auto split: option.splits)
    from hexval_lower[OF hi] hexval_lower[OF lo]
    have l: "hexdigit hi = lower_char c" "hi < 16" "hexdigit lo = lower_char d" "lo < 16"
      by simp_all
    have u: "unat (of_nat (16 * hi + lo) :: 8 word) = 16 * hi + lo"
      by (rule unat_byte[OF l(2,4)])
    have "hexlify bs' = map lower_char (filter (\<lambda>c. \<not> is_space c) cs)"
      using "3.IH"(2)[OF False hi lo r] .
    with False hexval_not_space[OF lo] l u bs show ?thesis by simp
  qed
qed

lemma is_hex_codes:
  "is_hex c \<longleftrightarrow>
   (of_char c :: nat) \<in> {48,49,50,51,52,53,54,55,56,57,97,98,99,100,101,102,65,66,67,68,69,70}"
proof -
  have "is_hex c \<longleftrightarrow> (of_char c :: nat) \<in> of_char ` set ''0123456789abcdefABCDEF''"
    unfolding is_hex_def by (rule inj_image_mem_iff[symmetric]) (simp add: inj_on_def)
  also have "\<dots> \<longleftrightarrow>
    (of_char c :: nat) \<in> {48,49,50,51,52,53,54,55,56,57,97,98,99,100,101,102,65,66,67,68,69,70}"
    by simp
  finally show ?thesis .
qed

lemma digit_codes: "48 \<le> n \<Longrightarrow> n \<le> 57 \<Longrightarrow> (n::nat) \<in> {48,49,50,51,52,53,54,55,56,57}"
  by (simp only: insert_iff empty_iff) presburger

lemma lower_codes: "97 \<le> n \<Longrightarrow> n \<le> 102 \<Longrightarrow> (n::nat) \<in> {97,98,99,100,101,102}"
  by (simp only: insert_iff empty_iff) presburger

lemma upper_codes: "65 \<le> n \<Longrightarrow> n \<le> 70 \<Longrightarrow> (n::nat) \<in> {65,66,67,68,69,70}"
  by (simp only: insert_iff empty_iff) presburger

lemma is_hex_hexval: "is_hex c \<longleftrightarrow> hexval c \<noteq> None"
proof
  assume "is_hex c"
  then show "hexval c \<noteq> None"
    by (auto simp: is_hex_def hexval_def)
next
  assume h: "hexval c \<noteq> None"
  define n where "n = (of_char c :: nat)"
  from h consider "48 \<le> n \<and> n \<le> 57" | "97 \<le> n \<and> n \<le> 102" | "65 \<le> n \<and> n \<le> 70"
    by (auto simp: hexval_def Let_def n_def split: if_splits)
  then have "n \<in> {48,49,50,51,52,53,54,55,56,57} \<union> {97,98,99,100,101,102} \<union> {65,66,67,68,69,70}"
  proof cases
    case 1 then show ?thesis using digit_codes[of n] by blast
  next
    case 2 then show ?thesis using lower_codes[of n] by blast
  next
    case 3 then show ?thesis using upper_codes[of n] by blast
  qed
  then show "is_hex c"
    unfolding is_hex_codes n_def by blast
qed

lemma is_hex_not_space: "is_hex c \<Longrightarrow> \<not> is_space c"
  using hexval_not_space[of c] by (auto simp: is_hex_hexval)

lemma fromhex_bad_char:
  "\<exists>c\<in>set t. \<not> is_hex c \<and> \<not> is_space c \<Longrightarrow> fromhex t = None"
proof (induction t rule: fromhex.induct)
  case 1
  then show ?case by simp
next
  case (2 c)
  then show ?case by simp
next
  case (3 c d cs)
  show ?case
  proof (cases "is_space c")
    case True
    with "3.prems" have "\<exists>c\<in>set (d # cs). \<not> is_hex c \<and> \<not> is_space c" by auto
    from "3.IH"(1)[OF True this] True show ?thesis by simp
  next
    case False
    show ?thesis
    proof (cases "hexval c")
      case None
      with False show ?thesis by simp
    next
      case (Some hi)
      note hi = this
      show ?thesis
      proof (cases "hexval d")
        case None
        with False hi show ?thesis by simp
      next
        case (Some lo)
        from hi Some have "is_hex c" "is_hex d" by (simp_all add: is_hex_hexval)
        with "3.prems" have "\<exists>c\<in>set cs. \<not> is_hex c \<and> \<not> is_space c" by auto
        from "3.IH"(2)[OF False hi Some this] False hi Some show ?thesis by simp
      qed
    qed
  qed
qed

lemma fromhex_all_hex:
  "\<forall>c\<in>set t. is_hex c \<Longrightarrow> even (length t) \<Longrightarrow>
   \<exists>bs. fromhex t = Some bs \<and> 2 * length bs = length t"
proof (induction t rule: fromhex.induct)
  case 1
  then show ?case by simp
next
  case (2 c)
  then show ?case by simp
next
  case (3 c d cs)
  from "3.prems" have c: "is_hex c" and d: "is_hex d" and cs: "\<forall>c\<in>set cs. is_hex c"
    and ev: "even (length cs)" by simp_all
  from c d obtain hi lo where hi: "hexval c = Some hi" and lo: "hexval d = Some lo"
    by (auto simp: is_hex_hexval)
  have ns: "\<not> is_space c" by (rule is_hex_not_space[OF c])
  from "3.IH"(2)[OF ns hi lo cs ev] obtain bs where
    "fromhex cs = Some bs" "2 * length bs = length cs" by blast
  with ns hi lo show ?case by simp
qed

lemma ObjectId_is_valid_new: "ObjectId_is_valid t \<longleftrightarrow> (\<exists>x. ObjectId_new t = Inr x)"
  by (auto simp: ObjectId_is_valid_def ObjectId_new_def split: sum.splits)

lemma ObjectId_invalid:
  "length t \<noteq> 24 \<or> (\<exists>c\<in>set t. \<not> is_hex c \<and> \<not> is_space c) \<Longrightarrow> \<not> ObjectId_is_valid t"
  using fromhex_bad_char[of t]
  by (auto simp: ObjectId_is_valid_def ObjectId_new_def)

lemma ObjectId_new_hex:
  assumes "length t = 24" "\<forall>c\<in>set t. is_hex c"
  shows "\<exists>x. ObjectId_new t = Inr x \<and> length x = 12"
proof -
  from fromhex_all_hex[OF assms(2)] assms(1) obtain bs where
    "fromhex t = Some bs" "2 * length bs = length t" by auto
  with assms(1) show ?thesis by (simp add: ObjectId_new_def)
qed

lemma str_ObjectId_new:
  "ObjectId_new t = Inr x \<Longrightarrow>
   str_of_ObjectId x = map lower_char (filter (\<lambda>c. \<not> is_space c) t)"
  by (auto simp: ObjectId_new_def str_of_ObjectId_def hexlify_fromhex
      split: if_splits option.splits)

lemma decode_product_id_Inr: "decode_product_id t = Inr x \<longleftrightarrow> ObjectId_new t = Inr x"
  by (auto simp: decode_product_id_def ObjectId_is_valid_new)

lemma decode_product_id_invalid:
  "\<not> ObjectId_is_valid t \<Longrightarrow> decode_product_id t = Inl (HTTPException 400 ''Invalid product id'')"
  by (simp add: decode_product_id_def)

lemma PyObjectId_validate_Inr:
  "ObjectId_new t = Inr x \<Longrightarrow> PyObjectId_validate (ArgStr t) = Inr x"
  by (simp add: PyObjectId_validate_def ObjectId_is_valid_new)

lemma decode_text_zero: "decode_product_id text_zero = Inr oid_zero"
  unfolding text_zero_def oid_zero_def by code_simp

lemma decode_text_a: "decode_product_id text_a = Inr oid_a"
  unfolding text_a_def oid_a_def by code_simp

lemma decode_text_A: "decode_product_id text_A = Inr oid_a"
  unfolding text_A_def oid_a_def by code_simp

lemma decode_text_spaced: "decode_product_id text_spaced = Inr (replicate 11 0)"
  unfolding text_spaced_def by code_simp

lemma str_oid_a: "str_of_ObjectId oid_a = text_a"
  unfolding text_a_def oid_a_def by code_simp

text \<open>
  C1 (as amended). For every identifier \<open>x\<close> of 12 bytes, decoding the text of \<open>x\<close>
  gives \<open>x\<close> back, through the path decoding of the handlers and through
  \<^verbatim>\<open>PyObjectId.validate\<close>, and no two identifiers have the same text. A text
  whose length is not 24, or that holds a character which is neither a hexadecimal
  digit nor ASCII white space, fails: with \<open>InvalidIdentifier\<close> (status 400) in
  the handlers, with \<^verbatim>\<open>ValueError\<close> in \<^verbatim>\<open>PyObjectId.validate\<close>. A text of 24
  hexadecimal digits decodes to an identifier of 12 bytes, and encoding that gives
  the text in lower case: the text itself exactly when it has no upper-case digit.
  Whatever text decodes, encoding the result gives the text in lower case with its
  white space removed.
\<close>

theorem identifier_codec:
  "(length x = 12 \<longrightarrow>
      decode_product_id (str_of_ObjectId x) = Inr x
      \<and> PyObjectId_validate (ArgStr (str_of_ObjectId x)) = Inr x)
   \<and> (str_of_ObjectId x = str_of_ObjectId y \<longrightarrow> x = y)
   \<and> (length t \<noteq> 24 \<or> (\<exists>c\<in>set t. \<not> is_hex c \<and> \<not> is_space c) \<longrightarrow>
        decode_product_id t = Inl InvalidIdentifier
        \<and> PyObjectId_validate (ArgStr t) = Inl (ValueError ''Invalid ObjectId''))
   \<and> (length t = 24 \<and> (\<forall>c\<in>set t. is_hex c) \<longrightarrow>
        (\<exists>z. decode_product_id t = Inr z
            \<and> PyObjectId_validate (ArgStr t) = Inr z
            \<and> length z = 12
            \<and> str_of_ObjectId z = map lower_char t
            \<and> ((\<forall>c\<in>set t. lower_char c = c) \<longrightarrow> str_of_ObjectId z = t)))
   \<and> (decode_product_id t = Inr w \<longrightarrow>
        str_of_ObjectId w = map lower_char (filter (\<lambda>c. \<not> is_space c) t))"
proof (intro conjI impI)
  assume x: "length x = 12"
  show "decode_product_id (str_of_ObjectId x) = Inr x"
    by (simp add: decode_product_id_Inr ObjectId_new_str[OF x])
  show "PyObjectId_validate (ArgStr (str_of_ObjectId x)) = Inr x"
    by (rule PyObjectId_validate_Inr[OF ObjectId_new_str[OF x]])
next
  assume "str_of_ObjectId x = str_of_ObjectId y"
  then show "x = y" by (simp add: str_of_ObjectId_def hexlify_inj)
next
  assume "length t \<noteq> 24 \<or> (\<exists>c\<in>set t. \<not> is_hex c \<and> \<not> is_space c)"
  then have n: "\<not> ObjectId_is_valid t" by (rule ObjectId_invalid)
  show "decode_product_id t = Inl InvalidIdentifier"
    using n by (simp add: decode_product_id_def InvalidIdentifier_def)
  show "PyObjectId_validate (ArgStr t) = Inl (ValueError ''Invalid ObjectId'')"
    using n by (simp add: PyObjectId_validate_def)
next
  assume a: "length t = 24 \<and> (\<forall>c\<in>set t. is_hex c)"
  then obtain z where z: "ObjectId_new t = Inr z" and l: "length z = 12"
    using ObjectId_new_hex[of t] by blast
  from a have "filter (\<lambda>c. \<not> is_space c) t = t"
    by (simp add: is_hex_not_space)
  with str_ObjectId_new[OF z] have s: "str_of_ObjectId z = map lower_char t" by simp
  have "(\<forall>c\<in>set t. lower_char c = c) \<longrightarrow> str_of_ObjectId z = t"
    by (simp add: s map_idI)
  with z l s show "\<exists>z. decode_product_id t = Inr z
            \<and> PyObjectId_validate (ArgStr t) = Inr z
            \<and> length z = 12
            \<and> str_of_ObjectId z = map lower_char t
            \<and> ((\<forall>c\<in>set t. lower_char c = c) \<longrightarrow> str_of_ObjectId z = t)"
    using PyObjectId_validate_Inr[OF z] by (auto simp: decode_product_id_Inr)
next
  assume "decode_product_id t = Inr w"
  then show "str_of_ObjectId w = map lower_char (filter (\<lambda>c. \<not> is_space c) t)"
    by (simp add: decode_product_id_Inr str_ObjectId_new)
qed

text \<open>
  C1, instances: an identifier of 12 bytes; a text of 5 characters; a text with the
  letter \<^verbatim>\<open>g\<close>; the text with an upper-case \<^verbatim>\<open>A\<close>.
\<close>

theorem identifier_codec_witness:
  "length oid_a = 12
   \<and> decode_product_id (str_of_ObjectId oid_a) = Inr oid_a
   \<and> str_of_ObjectId oid_a \<noteq> str_of_ObjectId oid_b
   \<and> length ''12345'' \<noteq> (24::nat)
   \<and> decode_product_id ''12345'' = Inl InvalidIdentifier
   \<and> \<not> is_hex (CHR ''g'') \<and> \<not> is_space (CHR ''g'')
   \<and> decode_product_id ''00000000000000000000000g'' = Inl InvalidIdentifier
   \<and> length text_A = 24
   \<and> decode_product_id text_A = Inr oid_a
   \<and> str_of_ObjectId oid_a = map lower_char text_A
   \<and> str_of_ObjectId oid_a = text_a"
proof -
  have la: "length oid_a = 12" by (simp add: oid_a_def)
  have a: "decode_product_id (str_of_ObjectId oid_a) = Inr oid_a"
    using identifier_codec[where x = oid_a] la by blast
  have b: "str_of_ObjectId oid_a = str_of_ObjectId oid_b \<longrightarrow> oid_a = oid_b"
    using identifier_codec[where x = oid_a and y = oid_b] by blast
  have ne: "oid_a \<noteq> oid_b" by (simp add: oid_a_def oid_b_def)
  have l: "length ''12345'' \<noteq> (24::nat)" by simp
  have c: "decode_product_id ''12345'' = Inl InvalidIdentifier"
    using identifier_codec[where t = "''12345''"] l by blast
  have g: "\<not> is_hex (CHR ''g'') \<and> \<not> is_space (CHR ''g'')"
    by (simp add: is_hex_def is_space_def)
  have "\<exists>c\<in>set ''00000000000000000000000g''. \<not> is_hex c \<and> \<not> is_space c" using g by simp
  then have d: "decode_product_id ''00000000000000000000000g'' = Inl InvalidIdentifier"
    using identifier_codec[where t = "''00000000000000000000000g''"] by blast
  have h: "length text_A = 24 \<and> (\<forall>c\<in>set text_A. is_hex c)"
    by (simp add: text_A_def is_hex_def)
  then obtain z where z: "decode_product_id text_A = Inr z"
    "str_of_ObjectId z = map lower_char text_A"
    using identifier_codec[where t = text_A] by blast
  with decode_text_A have e: "str_of_ObjectId oid_a = map lower_char text_A" by simp
  from la a b ne l c g d h decode_text_A e str_oid_a show ?thesis by blast
qed

text \<open>
  C1 as stated fails twice. A text of 24 characters that ends in two spaces holds
  characters that are no hexadecimal digits, and decodes (to 11 bytes) where the
  claim has it fail. The text with an upper-case \<^verbatim>\<open>A\<close> is well-formed and
  decodes, and encoding the result gives the lower-case text, another text.
\<close>

theorem identifier_text_roundtrip_counterexample:
  "length text_spaced = 24
   \<and> \<not> is_hex (CHR '' '') \<and> CHR '' '' \<in> set text_spaced
   \<and> decode_product_id text_spaced = Inr (replicate 11 0)
   \<and> length text_A = 24 \<and> ObjectId_is_valid text_A
   \<and> decode_product_id text_A = Inr oid_a
   \<and> str_of_ObjectId oid_a = text_a \<and> text_a \<noteq> text_A"
proof -
  have "length text_spaced = 24" "CHR '' '' \<in> set text_spaced" "\<not> is_hex (CHR '' '')"
    by (simp_all add: text_spaced_def is_hex_def)
  moreover have "length text_A = 24" "text_a \<noteq> text_A"
    by (simp_all add: text_A_def text_a_def)
  moreover have "ObjectId_is_valid text_A"
    using decode_text_A by (auto simp: ObjectId_is_valid_new decode_product_id_Inr)
  ultimately show ?thesis using decode_text_spaced decode_text_A str_oid_a by blast
qed

subsection \<open>Validation and the resource mapping: proofs\<close>

lemma str_items_map_PStr: "str_items (map PStr ss) = Some ss"
  by (induction ss) auto

lemma str_items_eq:
  "str_items xs =
     (if list_all is_PStr xs then Some (map (\<lambda>x. text_value (Some x)) xs) else None)"
proof (induction xs)
  case Nil
  show ?case by simp
next
  case (Cons v vs)
  then show ?case by (cases v) (simp_all add: text_value_def)
qed

lemma field_str_eq': "field_str v = (if is_text v then Some (text_value v) else None)"
  by (simp add: field_str_def is_text_def text_value_def split: option.splits pyval.splits)

lemma field_opt_str_eq:
  "field_opt_str v = (if is_opt_text v then Some (opt_text_value v) else None)"
  by (simp add: field_opt_str_def is_opt_text_def opt_text_value_def
      split: option.splits pyval.splits)

lemma field_opt_str_list_eq:
  "field_opt_str_list v = (if is_opt_text_list v then Some (features_value v) else None)"
  by (simp add: field_opt_str_list_def is_opt_text_list_def features_value_def str_items_eq
      split: option.splits pyval.splits)

lemma field_price_eq:
  assumes "\<not> (case v of Some (PStr s) \<Rightarrow> True | Some (PInt i) \<Rightarrow> 2 ^ 53 < \<bar>i\<bar> | _ \<Rightarrow> False)"
  shows "field_price L v = (if price_ok v then Some (price_value v) else None)"
proof (cases v)
  case None
  then show ?thesis by (simp add: field_price_def price_ok_def)
next
  case (Some x)
  with assms show ?thesis
    by (cases x) (simp_all add: field_price_def coerce_float_def price_ok_def price_value_def)
qed

lemma field_bool_eq:
  assumes "\<not> (case v of Some (PStr s) \<Rightarrow> True | _ \<Rightarrow> False)"
  shows "field_bool_default L True v = (if in_stock_ok v then Some (in_stock_value v) else None)"
  using assms
  by (auto simp: field_bool_default_def coerce_bool_def in_stock_ok_def in_stock_value_def
      split: option.splits pyval.splits)


lemma ProductCreate_validate_plain:
  assumes "\<not> needs_parsing kw"
  shows "ProductCreate_validate L kw =
     (if ProductCreate_accepts kw then Inr (expected_payload kw) else Inl ValidationError)"
proof -
  from assms have
    p: "\<not> (case kw ''price'' of Some (PStr s) \<Rightarrow> True | Some (PInt i) \<Rightarrow> 2 ^ 53 < \<bar>i\<bar>
           | _ \<Rightarrow> False)"
    and b: "\<not> (case kw ''in_stock'' of Some (PStr s) \<Rightarrow> True | _ \<Rightarrow> False)"
    by (simp_all add: needs_parsing_def)
  show ?thesis
    by (simp add: ProductCreate_validate_def ProductCreate_accepts_def expected_payload_def
        field_str_eq' field_opt_str_eq field_opt_str_list_eq field_price_eq[OF p]
        field_bool_eq[OF b])
qed

lemma ProductCreate_validate_bad_text:
  assumes "\<not> is_text (kw ''name'') \<or> \<not> is_text (kw ''brand'')
     \<or> \<not> is_opt_text (kw ''description'') \<or> \<not> is_opt_text (kw ''image_url'')
     \<or> \<not> is_opt_text (kw ''category'') \<or> \<not> is_opt_text_list (kw ''features'')
     \<or> kw ''price'' = None"
  shows "ProductCreate_validate L kw = Inl ValidationError"
  using assms
  by (auto simp: ProductCreate_validate_def field_str_eq' field_opt_str_eq
      field_opt_str_list_eq field_price_def Option.bind_eq_None_conv split: option.splits)


lemma price_value_nonneg: "price_ok v \<Longrightarrow> 0 \<le> price_value v"
  by (auto simp: price_ok_def price_value_def split: option.splits pyval.splits)

lemma accepts_any_text:
  "ProductCreate_accepts (kw(''name'' \<mapsto> PStr n, ''brand'' \<mapsto> PStr b)) =
   ProductCreate_accepts (kw(''name'' \<mapsto> PStr n', ''brand'' \<mapsto> PStr b'))"
  by (simp add: ProductCreate_accepts_def is_text_def)

text \<open>
  C5 (as amended). Leaving aside the inputs that give a text for the price or the
  stock flag, or an integer price beyond \<open>2^53\<close> in magnitude (those the libraries
  parse), the validation of a creation or update payload accepts exactly the inputs
  in which \<^verbatim>\<open>name\<close> and \<^verbatim>\<open>brand\<close> are texts, empty or not, \<^verbatim>\<open>price\<close> is a number
  of at least 0 (a boolean counts as 1 or 0), the optional texts are absent,
  \<^verbatim>\<open>None\<close> or texts, \<^verbatim>\<open>in_stock\<close> is absent, a boolean or the number 0 or 1, and
  \<^verbatim>\<open>features\<close> is absent, \<^verbatim>\<open>None\<close> or a list of texts. An accepted input gives the
  payload of its values, absent fields at their defaults, with a price of at least
  0; any other fails with \<open>ShapeValidationError\<close>. Every input, parsed or not,
  fails when name or brand is no text, an optional text or the features are of
  another type, or the price is absent. Whether an input is accepted does not
  depend on which texts its name and brand are: the empty text is as good as any.
\<close>

theorem ProductCreate_accepted_inputs:
  "(\<not> needs_parsing kw \<longrightarrow>
      (ProductCreate_accepts kw \<longrightarrow>
         ProductCreate_validate L kw = Inr (expected_payload kw)
         \<and> kw ''name'' = Some (PStr (name (expected_payload kw)))
         \<and> kw ''brand'' = Some (PStr (brand (expected_payload kw)))
         \<and> 0 \<le> price (expected_payload kw))
      \<and> (\<not> ProductCreate_accepts kw \<longrightarrow>
         ProductCreate_validate L kw = Inl ShapeValidationError))
   \<and> (\<not> is_text (kw ''name'') \<or> \<not> is_text (kw ''brand'')
        \<or> \<not> is_opt_text (kw ''description'') \<or> \<not> is_opt_text (kw ''image_url'')
        \<or> \<not> is_opt_text (kw ''category'') \<or> \<not> is_opt_text_list (kw ''features'')
        \<or> kw ''price'' = None \<longrightarrow>
      ProductCreate_validate L kw = Inl ShapeValidationError)
   \<and> ProductCreate_accepts (kw(''name'' \<mapsto> PStr [], ''brand'' \<mapsto> PStr [])) =
       ProductCreate_accepts (kw(''name'' \<mapsto> PStr n, ''brand'' \<mapsto> PStr b))"
proof (intro conjI impI)
  assume np: "\<not> needs_parsing kw" and a: "ProductCreate_accepts kw"
  show "ProductCreate_validate L kw = Inr (expected_payload kw)"
    by (simp add: ProductCreate_validate_plain[OF np] a)
  from a show "kw ''name'' = Some (PStr (name (expected_payload kw)))"
    by (auto simp: ProductCreate_accepts_def expected_payload_def is_text_def text_value_def
        split: option.splits pyval.splits)
  from a show "kw ''brand'' = Some (PStr (brand (expected_payload kw)))"
    by (auto simp: ProductCreate_accepts_def expected_payload_def is_text_def text_value_def
        split: option.splits pyval.splits)
  from a show "0 \<le> price (expected_payload kw)"
    by (simp add: ProductCreate_accepts_def expected_payload_def price_value_nonneg)
next
  assume "\<not> needs_parsing kw" and "\<not> ProductCreate_accepts kw"
  then show "ProductCreate_validate L kw = Inl ShapeValidationError"
    by (simp add: ProductCreate_validate_plain ShapeValidationError_def)
next
  assume "\<not> is_text (kw ''name'') \<or> \<not> is_text (kw ''brand'')
        \<or> \<not> is_opt_text (kw ''description'') \<or> \<not> is_opt_text (kw ''image_url'')
        \<or> \<not> is_opt_text (kw ''category'') \<or> \<not> is_opt_text_list (kw ''features'')
        \<or> kw ''price'' = None"
  then show "ProductCreate_validate L kw = Inl ShapeValidationError"
    unfolding ShapeValidationError_def by (rule ProductCreate_validate_bad_text)
next
  show "ProductCreate_accepts (kw(''name'' \<mapsto> PStr [], ''brand'' \<mapsto> PStr [])) =
       ProductCreate_accepts (kw(''name'' \<mapsto> PStr n, ''brand'' \<mapsto> PStr b))"
    by (rule accepts_any_text)
qed

lemma plain_examples:
  "\<not> needs_parsing body_example" "\<not> needs_parsing body_empty_name"
  "\<not> needs_parsing body_negative_price"
  by (simp_all add: needs_parsing_def body_example_def body_empty_name_def
      body_negative_price_def)

lemma accepts_examples:
  "ProductCreate_accepts body_example" "ProductCreate_accepts body_empty_name"
  "\<not> ProductCreate_accepts body_negative_price"
  by (simp_all add: ProductCreate_accepts_def body_example_def body_empty_name_def
      body_negative_price_def is_text_def is_opt_text_def price_ok_def in_stock_ok_def
      is_opt_text_list_def)

lemma expected_body_example: "expected_payload body_example = payload_example"
  by (simp add: expected_payload_def body_example_def payload_example_def text_value_def
      opt_text_value_def price_value_def in_stock_value_def features_value_def)

text \<open>
  C5, instances: the specification's example validates to its payload; an input
  with empty name and brand is accepted; the price \<open>-5\<close> is rejected; so is the
  empty input.
\<close>

theorem ProductCreate_accepted_inputs_witness:
  "\<not> needs_parsing body_example \<and> ProductCreate_accepts body_example
   \<and> ProductCreate_validate lib_example body_example = Inr payload_example
   \<and> \<not> needs_parsing body_empty_name \<and> ProductCreate_accepts body_empty_name
   \<and> ProductCreate_validate lib_example body_empty_name = Inr (expected_payload body_empty_name)
   \<and> body_empty_name ''name'' = Some (PStr [])
   \<and> \<not> needs_parsing body_negative_price \<and> \<not> ProductCreate_accepts body_negative_price
   \<and> ProductCreate_validate lib_example body_negative_price = Inl ShapeValidationError
   \<and> \<not> is_text (Map.empty ''name'')
   \<and> ProductCreate_validate lib_example Map.empty = Inl ShapeValidationError"
proof -
  have n: "body_empty_name ''name'' = Some (PStr [])" by (simp add: body_empty_name_def)
  have t: "\<not> is_text (Map.empty ''name'')" by (simp add: is_text_def)
  from ProductCreate_accepted_inputs[of body_example lib_example]
    ProductCreate_accepted_inputs[of body_empty_name lib_example]
    ProductCreate_accepted_inputs[of body_negative_price lib_example]
    ProductCreate_accepted_inputs[of Map.empty lib_example]
    plain_examples accepts_examples expected_body_example n t
  show ?thesis by (simp del: fun_upd_apply)
qed

text \<open>
  C5 as stated fails: the input with the empty name and the empty brand is not
  rejected, it validates to a payload.
\<close>

theorem empty_name_accepted_counterexample:
  "ProductCreate_validate lib_example body_empty_name =
     Inr \<lparr>name = [], brand = [], description = None, price = 1, image_url = None,
          category = None, in_stock = True, features = Some []\<rparr>
   \<and> body_empty_name ''name'' = Some (PStr [])
   \<and> body_empty_name ''brand'' = Some (PStr [])"
  by (simp add: ProductCreate_validate_def body_empty_name_def field_str_def field_opt_str_def
      field_price_def coerce_float_def field_bool_default_def field_opt_str_list_def)

lemma ProductCreate_validate_id:
  "ProductCreate_validate L (kw(''id'' \<mapsto> v)) = ProductCreate_validate L kw"
  by (simp add: ProductCreate_validate_def)











lemma dump_fields:
  "field_opt_str (Some (dump_opt_str v)) = Some v"
  "field_opt_str_list (Some (dump_opt_str_list f)) = Some f"
  by (auto simp: field_opt_str_def dump_opt_str_def field_opt_str_list_def
      dump_opt_str_list_def str_items_map_PStr split: option.splits)

lemma ProductCreate_validate_over_dump:
  assumes "0 \<le> price p"
  shows "ProductCreate_validate L (kw ++ ProductCreate_model_dump p) = Inr p"
  using assms
  by (cases p) (simp add: ProductCreate_validate_def ProductCreate_model_dump_def map_add_def
      field_str_def field_price_def coerce_float_def field_bool_default_def coerce_bool_def
      dump_fields)

lemma Product_validate_dump:
  assumes "0 \<le> price p"
  shows "Product_validate L ((kw ++ ProductCreate_model_dump p)(''id'' \<mapsto> PStr i)) =
         Inr (ProductCreate.extend p (Product.fields i))"
  using ProductCreate_validate_over_dump[OF assms, of L kw]
  by (simp add: Product_validate_def ProductCreate_validate_id field_str_def)

lemma admin_pass: "admin_token_required env tok = Inr True \<Longrightarrow> with_admin env tok st h = h"
  by (simp add: with_admin_def)

lemma create_product_ok:
  assumes "0 \<le> price payload" "available st"
  shows "create_product L st new_id payload =
     (Inr (ProductCreate.extend payload (Product.fields (str_of_ObjectId new_id))),
      logged (InsertOne ''product'')
        (st\<lparr>colls := (colls st)(''product'' := colls st ''product'' @
             [\<lparr>doc_id = new_id, doc_fields = ProductCreate_model_dump payload\<rparr>])\<rparr>))"
  using assms Product_validate_dump[OF assms(1), of L Map.empty "str_of_ObjectId new_id"]
  by (simp add: create_product_def create_document_def Let_def)

text \<open>
  C2. For every valid creation payload (its price is at least 0), with the admin
  check passed and the store reachable, Create returns a resource that has every
  field of the payload unchanged and, added, the encoded text of the newly assigned
  identifier; it is the payload's field dump, with that identifier, mapped back to
  the wire shape. The dump is what the store holds afterwards.
\<close>

theorem create_reproduces_payload:
  assumes "0 \<le> price payload"
    and "admin_token_required env tok = Inr True"
    and "available st"
  shows "\<exists>prod st'.
      POST_products L env tok st new_id payload = (Inr prod, st')
      \<and> name prod = name payload \<and> brand prod = brand payload
      \<and> description prod = description payload \<and> price prod = price payload
      \<and> image_url prod = image_url payload \<and> category prod = category payload
      \<and> in_stock prod = in_stock payload \<and> features prod = features payload
      \<and> id' prod = str_of_ObjectId new_id
      \<and> Product_validate L ((ProductCreate_model_dump payload)(''id'' \<mapsto> PStr (id' prod)))
          = Inr prod
      \<and> colls st' ''product'' = colls st ''product'' @
          [\<lparr>doc_id = new_id, doc_fields = ProductCreate_model_dump payload\<rparr>]"
proof -
  let ?prod = "ProductCreate.extend payload (Product.fields (str_of_ObjectId new_id))"
  have v: "Product_validate L ((ProductCreate_model_dump payload)(''id'' \<mapsto> PStr (id' ?prod))) = Inr ?prod"
    using Product_validate_dump[OF assms(1), of L Map.empty "str_of_ObjectId new_id"]
    by (simp add: ProductCreate.defs Product.defs)
  show ?thesis
    unfolding POST_products_def admin_pass[OF assms(2)] create_product_ok[OF assms(1,3)]
    using v by (simp add: ProductCreate.defs Product.defs logged_def)
qed

lemma admin_example: "admin_token_required env_example (Some ''s3cret'') = Inr True"
  by (simp add: admin_token_required_def env_example_def truthy_def)

text \<open>
  C2, instance: the example payload of the specification, created in the empty store.
\<close>

theorem create_reproduces_payload_witness:
  "0 \<le> price payload_example
   \<and> admin_token_required env_example (Some ''s3cret'') = Inr True
   \<and> available store_empty
   \<and> (\<exists>prod st'.
        POST_products lib_example env_example (Some ''s3cret'') store_empty oid_a payload_example
          = (Inr prod, st')
        \<and> name prod = ''Fridge X'' \<and> id' prod = str_of_ObjectId oid_a)"
proof -
  have p: "0 \<le> price payload_example" by (simp add: payload_example_def)
  have s: "available store_empty" by (simp add: store_empty_def)
  from create_reproduces_payload[OF p admin_example s, of lib_example oid_a]
  obtain prod st' where
    "POST_products lib_example env_example (Some ''s3cret'') store_empty oid_a payload_example
       = (Inr prod, st')"
    "name prod = name payload_example" "id' prod = str_of_ObjectId oid_a"
    by blast
  then show ?thesis using p s admin_example by (auto simp: payload_example_def)
qed

subsection \<open>The admin gate: proofs\<close>

lemma admin_denied:
  assumes "admin_token_required env tok = Inl e"
  shows "POST_products L env tok st new_id p = (Inl e, st)"
    and "PUT_product L env tok st pid p = (Inl e, st)"
    and "DELETE_product env tok st pid = (Inl e, st)"
    and "PUT_settings env tok st new_id s = (Inl e, st)"
  using assms
  by (simp_all add: POST_products_def PUT_product_def DELETE_product_def PUT_settings_def
      with_admin_def)

lemma admin_unconfigured:
  "\<not> truthy (ADMIN_TOKEN env) \<Longrightarrow> admin_token_required env tok = Inl ServerMisconfigured"
  by (simp add: admin_token_required_def ServerMisconfigured_def)

lemma admin_mismatch:
  "ADMIN_TOKEN env = Some secret \<Longrightarrow> secret \<noteq> [] \<Longrightarrow> tok \<noteq> Some secret \<Longrightarrow>
   admin_token_required env tok = Inl Unauthorized"
  by (simp add: admin_token_required_def Unauthorized_def truthy_def)

text \<open>
  C3. Every call of a mutating endpoint (Create, Update and Delete of products, the
  settings write) fails with \<open>ServerMisconfigured\<close> when the admin secret is not
  configured, whatever token the caller supplies; and fails with \<open>Unauthorized\<close>
  when the secret is configured and the supplied token differs from it, a missing
  token included. The store is left as it was. Configured means set to a text
  that is not empty, as the gate's own test has it; C10 is the empty text.
\<close>

theorem admin_gate_closed:
  "(ADMIN_TOKEN env = None \<longrightarrow>
      admin_token_required env tok = Inl ServerMisconfigured
      \<and> POST_products L env tok st new_id p = (Inl ServerMisconfigured, st)
      \<and> PUT_product L env tok st pid p = (Inl ServerMisconfigured, st)
      \<and> DELETE_product env tok st pid = (Inl ServerMisconfigured, st)
      \<and> PUT_settings env tok st new_id s = (Inl ServerMisconfigured, st))
   \<and> (ADMIN_TOKEN env = Some secret \<and> secret \<noteq> [] \<and> tok \<noteq> Some secret \<longrightarrow>
      admin_token_required env tok = Inl Unauthorized
      \<and> POST_products L env tok st new_id p = (Inl Unauthorized, st)
      \<and> PUT_product L env tok st pid p = (Inl Unauthorized, st)
      \<and> DELETE_product env tok st pid = (Inl Unauthorized, st)
      \<and> PUT_settings env tok st new_id s = (Inl Unauthorized, st))"
proof (intro conjI impI)
  assume "ADMIN_TOKEN env = None"
  then have a: "admin_token_required env tok = Inl ServerMisconfigured"
    by (simp add: admin_unconfigured truthy_def)
  show "admin_token_required env tok = Inl ServerMisconfigured" by (rule a)
  show "POST_products L env tok st new_id p = (Inl ServerMisconfigured, st)"
    by (rule admin_denied(1)[OF a])
  show "PUT_product L env tok st pid p = (Inl ServerMisconfigured, st)"
    by (rule admin_denied(2)[OF a])
  show "DELETE_product env tok st pid = (Inl ServerMisconfigured, st)"
    by (rule admin_denied(3)[OF a])
  show "PUT_settings env tok st new_id s = (Inl ServerMisconfigured, st)"
    by (rule admin_denied(4)[OF a])
next
  assume "ADMIN_TOKEN env = Some secret \<and> secret \<noteq> [] \<and> tok \<noteq> Some secret"
  then have a: "admin_token_required env tok = Inl Unauthorized"
    by (simp add: admin_mismatch)
  show "admin_token_required env tok = Inl Unauthorized" by (rule a)
  show "POST_products L env tok st new_id p = (Inl Unauthorized, st)"
    by (rule admin_denied(1)[OF a])
  show "PUT_product L env tok st pid p = (Inl Unauthorized, st)"
    by (rule admin_denied(2)[OF a])
  show "DELETE_product env tok st pid = (Inl Unauthorized, st)"
    by (rule admin_denied(3)[OF a])
  show "PUT_settings env tok st new_id s = (Inl Unauthorized, st)"
    by (rule admin_denied(4)[OF a])
qed

text \<open>
  C3, instances: no secret, with the right-looking token and with none; the secret
  \<^verbatim>\<open>s3cret\<close>, with no token and with a wrong one.
\<close>

theorem admin_gate_closed_witness:
  "ADMIN_TOKEN env_unset = None
   \<and> POST_products lib_example env_unset (Some ''s3cret'') store_empty oid_a payload_example
       = (Inl ServerMisconfigured, store_empty)
   \<and> DELETE_product env_unset None store_empty text_a
       = (Inl ServerMisconfigured, store_empty)
   \<and> ADMIN_TOKEN env_example = Some ''s3cret''
   \<and> PUT_product lib_example env_example None store_empty text_a
        payload_example = (Inl Unauthorized, store_empty)
   \<and> PUT_settings env_example (Some ''guess'') store_empty oid_a SiteSettings_default
       = (Inl Unauthorized, store_empty)"
proof -
  have u: "ADMIN_TOKEN env_unset = None" by (simp add: env_unset_def)
  have e: "ADMIN_TOKEN env_example = Some ''s3cret''" by (simp add: env_example_def)
  have n: "ADMIN_TOKEN env_example = Some ''s3cret'' \<and> ''s3cret'' \<noteq> [] \<and> None \<noteq> Some ''s3cret''"
    using e by simp
  have g: "ADMIN_TOKEN env_example = Some ''s3cret'' \<and> ''s3cret'' \<noteq> []
     \<and> Some ''guess'' \<noteq> Some ''s3cret''"
    using e by simp
  from u e
    admin_gate_closed[where env = env_unset and tok = "Some ''s3cret''" and L = lib_example
      and st = store_empty and new_id = oid_a and p = payload_example]
    admin_gate_closed[where env = env_unset and tok = None and st = store_empty
      and pid = text_a]
    admin_gate_closed[where env = env_example and secret = "''s3cret''" and tok = None
      and L = lib_example and st = store_empty and p = payload_example
      and pid = text_a]
    admin_gate_closed[where env = env_example and secret = "''s3cret''"
      and tok = "Some ''guess''" and st = store_empty and new_id = oid_a
      and s = SiteSettings_default]
    n g
  show ?thesis by blast
qed

text \<open>
  C10. When the admin secret is configured as the empty text, the gate and every
  mutating endpoint fail with \<open>ServerMisconfigured\<close> for every caller-supplied
  token, the empty text and the missing token included: no token authorizes.
\<close>

theorem empty_admin_secret_denies:
  assumes "ADMIN_TOKEN env = Some []"
  shows "admin_token_required env tok = Inl ServerMisconfigured
      \<and> POST_products L env tok st new_id p = (Inl ServerMisconfigured, st)
      \<and> PUT_product L env tok st pid p = (Inl ServerMisconfigured, st)
      \<and> DELETE_product env tok st pid = (Inl ServerMisconfigured, st)
      \<and> PUT_settings env tok st new_id s = (Inl ServerMisconfigured, st)"
proof -
  have a: "admin_token_required env tok = Inl ServerMisconfigured"
    using assms by (simp add: admin_unconfigured truthy_def)
  from a admin_denied[OF a] show ?thesis by simp
qed

text \<open>
  C10, instances: the empty token and the missing token against the empty secret.
\<close>

theorem empty_admin_secret_denies_witness:
  "ADMIN_TOKEN env_empty = Some []
   \<and> admin_token_required env_empty (Some []) = Inl ServerMisconfigured
   \<and> admin_token_required env_empty None = Inl ServerMisconfigured
   \<and> POST_products lib_example env_empty (Some []) store_empty oid_a payload_example
       = (Inl ServerMisconfigured, store_empty)"
proof -
  have e: "ADMIN_TOKEN env_empty = Some []" by (simp add: env_empty_def)
  from e empty_admin_secret_denies[OF e, where tok = "Some []" and L = lib_example
      and st = store_empty and new_id = oid_a and p = payload_example]
    empty_admin_secret_denies[OF e, where tok = None]
  show ?thesis by blast
qed

subsection \<open>Update: proofs\<close>

lemma find_split:
  "List.find P xs = Some d \<Longrightarrow>
   \<exists>pre post. xs = pre @ d # post \<and> (\<forall>x\<in>set pre. \<not> P x) \<and> P d"
proof (induction xs)
  case Nil
  then show ?case by simp
next
  case (Cons x xs)
  show ?case
  proof (cases "P x")
    case True
    with Cons.prems have "x = d" by simp
    with True have "x # xs = [] @ d # xs \<and> (\<forall>x\<in>set []. \<not> P x) \<and> P d" by simp
    then show ?thesis by blast
  next
    case False
    with Cons.prems have "List.find P xs = Some d" by simp
    from Cons.IH[OF this] obtain pre post where
      "xs = pre @ d # post" "\<forall>x\<in>set pre. \<not> P x" "P d" by blast
    with False have "x # xs = (x # pre) @ d # post \<and> (\<forall>y\<in>set (x # pre). \<not> P y) \<and> P d"
      by simp
    then show ?thesis by blast
  qed
qed

lemma update_first_split:
  "\<forall>x\<in>set pre. \<not> P x \<Longrightarrow> P d \<Longrightarrow> update_first P f (pre @ d # post) = pre @ f d # post"
  by (induction pre) auto

lemma find_append_hit:
  "\<forall>x\<in>set pre. \<not> P x \<Longrightarrow> P d \<Longrightarrow> List.find P (pre @ d # post) = Some d"
  by (induction pre) auto

lemma find_None_iff': "List.find P xs = None \<longleftrightarrow> (\<forall>x\<in>set xs. \<not> P x)"
  by (induction xs) auto

lemma model_dump_dom:
  "k \<in> set ProductCreate_fields \<Longrightarrow> ProductCreate_model_dump p k \<noteq> None"
  "k \<notin> set ProductCreate_fields \<Longrightarrow> ProductCreate_model_dump p k = None"
  by (auto simp: ProductCreate_fields_def ProductCreate_model_dump_def)

lemma update_product_invalid:
  "\<not> ObjectId_is_valid pid \<Longrightarrow> update_product L st pid payload = (Inl InvalidIdentifier, st)"
  by (simp add: update_product_def decode_product_id_def InvalidIdentifier_def)

lemma update_product_missing:
  assumes "available st" "decode_product_id pid = Inr oid"
    and "\<forall>d\<in>set (colls st ''product''). doc_id d \<noteq> oid"
  shows "update_product L st pid payload = (Inl NotFound, logged (UpdateOne ''product'') st)"
proof -
  have "List.find (matches (Q_id oid)) (colls st ''product'') = None"
    using assms(3) by (simp add: find_None_iff')
  with assms(1,2) show ?thesis
    by (simp add: update_product_def update_one_def NotFound_def)
qed

lemma update_product_ok:
  assumes av: "available st" and dec: "decode_product_id pid = Inr oid"
    and split: "colls st ''product'' = pre @ d # post"
    and pre: "\<forall>x\<in>set pre. doc_id x \<noteq> oid" and d: "doc_id d = oid"
    and price: "0 \<le> price payload"
  shows "update_product L st pid payload =
     (Inr (ProductCreate.extend payload (Product.fields (str_of_ObjectId oid))),
      logged (FindOne ''product'') (logged (UpdateOne ''product'')
        (st\<lparr>colls := (colls st)(''product'' :=
            pre @ d\<lparr>doc_fields := doc_fields d ++ ProductCreate_model_dump payload\<rparr> # post)\<rparr>)))"
proof -
  let ?d' = "d\<lparr>doc_fields := doc_fields d ++ ProductCreate_model_dump payload\<rparr>"
  have P: "\<forall>x\<in>set pre. \<not> matches (Q_id oid) x" "matches (Q_id oid) d"
    "matches (Q_id oid) ?d'"
    using pre d by simp_all
  have f: "List.find (matches (Q_id oid)) (colls st ''product'') = Some d"
    unfolding split by (rule find_append_hit[OF P(1,2)])
  have u: "update_first (matches (Q_id oid))
             (\<lambda>d. d\<lparr>doc_fields := doc_fields d ++ ProductCreate_model_dump payload\<rparr>)
             (colls st ''product'') = pre @ ?d' # post"
    unfolding split by (rule update_first_split[OF P(1,2)])
  have f': "List.find (matches (Q_id oid)) (pre @ ?d' # post) = Some ?d'"
    by (rule find_append_hit[OF P(1,3)])
  have w: "Product_of_document L ?d' =
      Inr (ProductCreate.extend payload (Product.fields (str_of_ObjectId oid)))"
    using Product_validate_dump[OF price, of L "doc_fields d" "str_of_ObjectId oid"] d
    by (simp add: Product_of_document_def)
  show ?thesis
    using av dec
    by (simp add: update_product_def update_one_def find_one_def f u f' w logged_def)
qed

lemma oid_a_distinct: "oid_a \<noteq> oid_zero" "oid_a \<noteq> replicate 11 0"
  unfolding oid_a_def oid_zero_def by code_simp+

text \<open>
  C4 (as amended). For every Update call that has passed the admin check: when the
  path identifier has a length other than 24, or holds a character that is neither
  a hexadecimal digit nor ASCII white space, the call fails with
  \<open>InvalidIdentifier\<close>, status 400, and the store is exactly as before, its log of
  served calls included, so no store operation was performed; when the identifier
  decodes but no product document has it, the call fails with \<open>NotFound\<close>, status
  404, and every collection holds the documents it held. Every text of 24
  hexadecimal digits decodes, to an identifier of 12 bytes.
\<close>

theorem update_rejects_bad_identifier:
  assumes "admin_token_required env tok = Inr True"
  shows "(length pid \<noteq> 24 \<or> (\<exists>c\<in>set pid. \<not> is_hex c \<and> \<not> is_space c) \<longrightarrow>
            PUT_product L env tok st pid payload = (Inl InvalidIdentifier, st)
            \<and> status_code InvalidIdentifier = 400)
       \<and> (available st \<and> decode_product_id pid = Inr oid
            \<and> (\<forall>d\<in>set (colls st ''product''). doc_id d \<noteq> oid) \<longrightarrow>
            fst (PUT_product L env tok st pid payload) = Inl NotFound
            \<and> status_code NotFound = 404
            \<and> colls (snd (PUT_product L env tok st pid payload)) = colls st)
       \<and> (length pid = 24 \<and> (\<forall>c\<in>set pid. is_hex c) \<longrightarrow>
            (\<exists>z. decode_product_id pid = Inr z \<and> length z = 12))"
proof (intro conjI impI)
  assume "length pid \<noteq> 24 \<or> (\<exists>c\<in>set pid. \<not> is_hex c \<and> \<not> is_space c)"
  then have "\<not> ObjectId_is_valid pid" by (rule ObjectId_invalid)
  then show "PUT_product L env tok st pid payload = (Inl InvalidIdentifier, st)"
    by (simp add: PUT_product_def admin_pass[OF assms] update_product_invalid)
  show "status_code InvalidIdentifier = 400" by (simp add: InvalidIdentifier_def)
next
  assume a: "available st \<and> decode_product_id pid = Inr oid
            \<and> (\<forall>d\<in>set (colls st ''product''). doc_id d \<noteq> oid)"
  then have a1: "available st" and a2: "decode_product_id pid = Inr oid"
    and a3: "\<forall>d\<in>set (colls st ''product''). doc_id d \<noteq> oid"
    by simp_all
  have u: "update_product L st pid payload = (Inl NotFound, logged (UpdateOne ''product'') st)"
    by (rule update_product_missing[OF a1 a2 a3])
  show "fst (PUT_product L env tok st pid payload) = Inl NotFound"
    by (simp add: PUT_product_def admin_pass[OF assms] u)
  show "colls (snd (PUT_product L env tok st pid payload)) = colls st"
    by (simp add: PUT_product_def admin_pass[OF assms] u logged_def)
  show "status_code NotFound = 404" by (simp add: NotFound_def)
next
  assume "length pid = 24 \<and> (\<forall>c\<in>set pid. is_hex c)"
  then show "\<exists>z. decode_product_id pid = Inr z \<and> length z = 12"
    using ObjectId_new_hex[of pid] by (simp add: decode_product_id_Inr)
qed

text \<open>
  C4, instances: the path \<^verbatim>\<open>not-an-id\<close>, and the well-formed path of 24 zeros
  against a store that has no such document (the specification's example).
\<close>

theorem update_rejects_bad_identifier_witness:
  "admin_token_required env_example (Some ''s3cret'') = Inr True
   \<and> length ''not-an-id'' \<noteq> (24::nat)
   \<and> PUT_product lib_example env_example (Some ''s3cret'') store_legacy ''not-an-id''
        payload_example = (Inl InvalidIdentifier, store_legacy)
   \<and> available store_legacy
   \<and> decode_product_id text_zero = Inr oid_zero
   \<and> fst (PUT_product lib_example env_example (Some ''s3cret'') store_legacy
        text_zero payload_example) = Inl NotFound
   \<and> colls (snd (PUT_product lib_example env_example (Some ''s3cret'') store_legacy
        text_zero payload_example)) = colls store_legacy"
proof -
  have l: "length ''not-an-id'' \<noteq> (24::nat)" by simp
  have a: "available store_legacy" by (simp add: store_legacy_def)
  have m: "\<forall>d\<in>set (colls store_legacy ''product''). doc_id d \<noteq> oid_zero"
    by (simp add: store_legacy_def doc_legacy_def oid_a_distinct)
  from update_rejects_bad_identifier[OF admin_example, where pid = "''not-an-id''"
      and L = lib_example and st = store_legacy and payload = payload_example] l
    update_rejects_bad_identifier[OF admin_example, where pid = text_zero
      and L = lib_example and st = store_legacy and payload = payload_example
      and oid = oid_zero]
    a m decode_text_zero admin_example
  show ?thesis by blast
qed

text \<open>
  C4 as stated fails: the path of 22 zeros and two spaces holds characters that are
  no hexadecimal digits, and the call does not fail with \<open>InvalidIdentifier\<close>: the
  text passes the validity check, the store serves an update call, and the answer
  is \<open>NotFound\<close>.
\<close>

theorem spaced_identifier_reaches_store_counterexample:
  "length text_spaced = 24 \<and> CHR '' '' \<in> set text_spaced \<and> \<not> is_hex (CHR '' '')
   \<and> PUT_product lib_example env_example (Some ''s3cret'') store_legacy text_spaced
        payload_example = (Inl NotFound, logged (UpdateOne ''product'') store_legacy)
   \<and> oplog store_legacy = []
   \<and> oplog (snd (PUT_product lib_example env_example (Some ''s3cret'') store_legacy
        text_spaced payload_example)) = [UpdateOne ''product'']
   \<and> NotFound \<noteq> InvalidIdentifier"
proof -
  have t: "length text_spaced = 24" "CHR '' '' \<in> set text_spaced" "\<not> is_hex (CHR '' '')"
    by (simp_all add: text_spaced_def is_hex_def)
  have a: "available store_legacy" and o: "oplog store_legacy = []"
    by (simp_all add: store_legacy_def)
  have m: "\<forall>d\<in>set (colls store_legacy ''product''). doc_id d \<noteq> replicate 11 0"
    by (simp add: store_legacy_def doc_legacy_def oid_a_distinct)
  have u: "update_product lib_example store_legacy text_spaced payload_example =
      (Inl NotFound, logged (UpdateOne ''product'') store_legacy)"
    by (rule update_product_missing[OF a decode_text_spaced m])
  have n: "NotFound \<noteq> InvalidIdentifier" by (simp add: NotFound_def InvalidIdentifier_def)
  show ?thesis
    using t o n by (simp add: PUT_product_def admin_pass[OF admin_example] u logged_def)
qed

text \<open>
  C8 (as amended). For every successful Update on a matched document (admin check
  passed, store reachable, identifier decoded, payload valid): every field the
  payload shape declares holds the payload's value afterwards, the identifier is
  unchanged, and every field of the prior record that the shape does not declare
  keeps its prior value. The documents before and after the matched one, and the
  other collections, are unchanged, and the call returns the payload with the
  encoded identifier.
\<close>

theorem update_sets_payload_fields:
  assumes "admin_token_required env tok = Inr True"
    and "available st"
    and "decode_product_id pid = Inr oid"
    and "List.find (matches (Q_id oid)) (colls st ''product'') = Some d"
    and "0 \<le> price payload"
  shows "\<exists>st' d' pre post.
      PUT_product L env tok st pid payload =
        (Inr (ProductCreate.extend payload (Product.fields (str_of_ObjectId oid))), st')
      \<and> colls st ''product'' = pre @ d # post
      \<and> colls st' ''product'' = pre @ d' # post
      \<and> List.find (matches (Q_id oid)) (colls st' ''product'') = Some d'
      \<and> doc_id d' = doc_id d \<and> doc_id d = oid
      \<and> (\<forall>k\<in>set ProductCreate_fields.
            doc_fields d' k = ProductCreate_model_dump payload k
            \<and> ProductCreate_model_dump payload k \<noteq> None)
      \<and> (\<forall>k. k \<notin> set ProductCreate_fields \<longrightarrow> doc_fields d' k = doc_fields d k)
      \<and> (\<forall>c. c \<noteq> ''product'' \<longrightarrow> colls st' c = colls st c)"
proof -
  from find_split[OF assms(4)] obtain pre post where
    split: "colls st ''product'' = pre @ d # post"
    and pre: "\<forall>x\<in>set pre. doc_id x \<noteq> oid" and d: "doc_id d = oid"
    by auto
  let ?d' = "d\<lparr>doc_fields := doc_fields d ++ ProductCreate_model_dump payload\<rparr>"
  let ?st' = "logged (FindOne ''product'') (logged (UpdateOne ''product'')
        (st\<lparr>colls := (colls st)(''product'' := pre @ ?d' # post)\<rparr>))"
  have r: "PUT_product L env tok st pid payload =
        (Inr (ProductCreate.extend payload (Product.fields (str_of_ObjectId oid))), ?st')"
    unfolding PUT_product_def admin_pass[OF assms(1)]
    by (rule update_product_ok[OF assms(2,3) split pre d assms(5)])
  have c: "colls ?st' ''product'' = pre @ ?d' # post" by (simp add: logged_def)
  have f: "List.find (matches (Q_id oid)) (colls ?st' ''product'') = Some ?d'"
    unfolding c using pre d by (intro find_append_hit) simp_all
  have k1: "\<forall>k\<in>set ProductCreate_fields.
            doc_fields ?d' k = ProductCreate_model_dump payload k
            \<and> ProductCreate_model_dump payload k \<noteq> None"
  proof (intro ballI conjI)
    fix k assume k: "k \<in> set ProductCreate_fields"
    from model_dump_dom(1)[OF k, of payload] obtain y where
      "ProductCreate_model_dump payload k = Some y" by blast
    then show "doc_fields ?d' k = ProductCreate_model_dump payload k"
      by (simp add: map_add_def)
    show "ProductCreate_model_dump payload k \<noteq> None"
      by (rule model_dump_dom(1)[OF k])
  qed
  have k2: "\<forall>k. k \<notin> set ProductCreate_fields \<longrightarrow> doc_fields ?d' k = doc_fields d k"
    using model_dump_dom(2)[of _ payload] by (simp add: map_add_def)
  have o: "\<forall>c. c \<noteq> ''product'' \<longrightarrow> colls ?st' c = colls st c" by (simp add: logged_def)
  have i: "doc_id ?d' = doc_id d" by simp
  from r split c f i d k1 k2 o show ?thesis by blast
qed

lemma find_legacy:
  "List.find (matches (Q_id oid_a)) (colls store_legacy ''product'') = Some doc_legacy"
  by (simp add: store_legacy_def doc_legacy_def)

text \<open>
  C8, instance: the example payload written over the stored document.
\<close>

theorem update_sets_payload_fields_witness:
  "admin_token_required env_example (Some ''s3cret'') = Inr True
   \<and> available store_legacy
   \<and> decode_product_id text_a = Inr oid_a
   \<and> List.find (matches (Q_id oid_a)) (colls store_legacy ''product'') = Some doc_legacy
   \<and> 0 \<le> price payload_example
   \<and> fst (PUT_product lib_example env_example (Some ''s3cret'') store_legacy
        text_a payload_example) =
       Inr (ProductCreate.extend payload_example (Product.fields (str_of_ObjectId oid_a)))"
proof -
  have a: "available store_legacy" by (simp add: store_legacy_def)
  have p: "0 \<le> price payload_example" by (simp add: payload_example_def)
  from update_sets_payload_fields[OF admin_example a decode_text_a find_legacy p, of lib_example]
  obtain st' where "PUT_product lib_example env_example (Some ''s3cret'') store_legacy
        text_a payload_example =
       (Inr (ProductCreate.extend payload_example (Product.fields (str_of_ObjectId oid_a))), st')"
    by blast
  with admin_example a decode_text_a find_legacy p show ?thesis by simp
qed

text \<open>
  C8 as stated fails: the stored document holds the field \<^verbatim>\<open>legacy_sku\<close>, the
  payload has no such field, the update succeeds, and the document still holds
  \<^verbatim>\<open>legacy_sku\<close> afterwards: a field of the prior record survives.
\<close>

theorem update_keeps_undeclared_field_counterexample:
  "fst (update_product lib_example store_legacy text_a payload_example) =
       Inr (ProductCreate.extend payload_example (Product.fields (str_of_ObjectId oid_a)))
   \<and> map doc_id (colls (snd (update_product lib_example store_legacy
        text_a payload_example)) ''product'') = [oid_a]
   \<and> doc_fields (hd (colls (snd (update_product lib_example store_legacy
        text_a payload_example)) ''product'')) ''legacy_sku''
       = Some (PStr ''K-1'')
   \<and> doc_fields doc_legacy ''legacy_sku'' = Some (PStr ''K-1'')
   \<and> ProductCreate_model_dump payload_example ''legacy_sku'' = None"
proof -
  have a: "available store_legacy" by (simp add: store_legacy_def)
  have p: "0 \<le> price payload_example" by (simp add: payload_example_def)
  have s: "colls store_legacy ''product'' = [] @ doc_legacy # []"
    by (simp add: store_legacy_def)
  have u: "update_product lib_example store_legacy text_a payload_example =
     (Inr (ProductCreate.extend payload_example (Product.fields (str_of_ObjectId oid_a))),
      logged (FindOne ''product'') (logged (UpdateOne ''product'')
        (store_legacy\<lparr>colls := (colls store_legacy)(''product'' :=
            [] @ doc_legacy\<lparr>doc_fields := doc_fields doc_legacy ++
               ProductCreate_model_dump payload_example\<rparr> # [])\<rparr>)))"
    by (rule update_product_ok[OF a decode_text_a s _ _ p]) (simp_all add: doc_legacy_def)
  have n: "ProductCreate_model_dump payload_example ''legacy_sku'' = None"
    by (simp add: ProductCreate_model_dump_def)
  have l: "doc_fields doc_legacy ''legacy_sku'' = Some (PStr ''K-1'')"
    by (simp add: doc_legacy_def)
  have i: "doc_id doc_legacy = oid_a" by (simp add: doc_legacy_def)
  show ?thesis
    unfolding u using n l i by (simp add: logged_def map_add_def)
qed

subsection \<open>Settings and contact intake: proofs\<close>

lemma SiteSettings_validate_default:
  "SiteSettings_validate L (SiteSettings_model_dump SiteSettings_default) = Inr SiteSettings_default"
  by (simp add: SiteSettings_validate_def SiteSettings_model_dump_def SiteSettings_default_def
      field_str_default_def field_opt_email_def field_opt_str_def dump_opt_str_def)

lemma SiteSettings_default_dump:
  "SiteSettings_model_dump SiteSettings_default ''hero_title'' = Some (PStr ''Premium White Goods'')"
  "SiteSettings_model_dump SiteSettings_default ''hero_subtitle'' =
     Some (PStr ''Reliable appliances for every home.'')"
  "SiteSettings_model_dump SiteSettings_default ''contact_email'' = Some PNone"
  "SiteSettings_model_dump SiteSettings_default ''phone'' = Some PNone"
  "SiteSettings_model_dump SiteSettings_default ''address'' = Some PNone"
  by (simp_all add: SiteSettings_model_dump_def SiteSettings_default_def dump_opt_str_def)

lemma get_settings_empty:
  assumes "available st" "colls st ''sitesettings'' = []"
  shows "get_settings L st new_id =
     (Inr SiteSettings_default,
      logged (InsertOne ''sitesettings'')
        ((logged (FindOne ''sitesettings'') st)
           \<lparr>colls := (colls st)(''sitesettings'' :=
              [\<lparr>doc_id = new_id,
                doc_fields = SiteSettings_model_dump SiteSettings_default\<rparr>])\<rparr>))"
  using assms
  by (simp add: get_settings_def find_one_def create_document_def logged_def Let_def)

lemma get_settings_materialized:
  fixes s :: store
  assumes "available s"
    and "colls s ''sitesettings'' =
           [\<lparr>doc_id = i, doc_fields = SiteSettings_model_dump SiteSettings_default\<rparr>]"
  shows "get_settings L s new_id = (Inr SiteSettings_default, logged (FindOne ''sitesettings'') s)"
  using assms
  by (simp add: get_settings_def find_one_def SiteSettings_validate_default)

text \<open>
  C6. When the settings collection is empty (and the store reachable), the read
  returns the defaults: the hero title \<^verbatim>\<open>Premium White Goods\<close>, the subtitle
  \<^verbatim>\<open>Reliable appliances for every home.\<close>, and the other fields absent. It
  persists them: the collection then holds one document, under the new identifier,
  whose fields are that title, that subtitle and \<^verbatim>\<open>None\<close> for the contact
  address, the phone and the address. Every later read, on that store or on one
  that holds the same documents, returns the same values and leaves the documents
  as they are.
\<close>

theorem settings_default_on_first_read:
  assumes "available st" and "colls st ''sitesettings'' = []"
  shows "\<exists>st1 d.
      get_settings L st id1 = (Inr SiteSettings_default, st1)
      \<and> hero_title SiteSettings_default = ''Premium White Goods''
      \<and> hero_subtitle SiteSettings_default = ''Reliable appliances for every home.''
      \<and> contact_email SiteSettings_default = None
      \<and> phone SiteSettings_default = None
      \<and> address SiteSettings_default = None
      \<and> available st1
      \<and> colls st1 ''sitesettings'' = [d]
      \<and> doc_id d = id1
      \<and> doc_fields d ''hero_title'' = Some (PStr ''Premium White Goods'')
      \<and> doc_fields d ''hero_subtitle'' = Some (PStr ''Reliable appliances for every home.'')
      \<and> doc_fields d ''contact_email'' = Some PNone
      \<and> doc_fields d ''phone'' = Some PNone
      \<and> doc_fields d ''address'' = Some PNone
      \<and> (\<forall>(s::store) id2. available s \<and> colls s = colls st1 \<longrightarrow>
            (\<exists>s'. get_settings L s id2 = (Inr SiteSettings_default, s')
                 \<and> available s' \<and> colls s' = colls s))"
proof -
  let ?d = "\<lparr>doc_id = id1, doc_fields = SiteSettings_model_dump SiteSettings_default\<rparr>"
  let ?st1 = "logged (InsertOne ''sitesettings'')
        ((logged (FindOne ''sitesettings'') st)
           \<lparr>colls := (colls st)(''sitesettings'' := [?d])\<rparr>)"
  have g: "get_settings L st id1 = (Inr SiteSettings_default, ?st1)"
    by (rule get_settings_empty[OF assms])
  have a: "available ?st1" using assms(1) by (simp add: logged_def)
  have c: "colls ?st1 ''sitesettings'' = [?d]"
    by (simp add: logged_def)
  have again: "\<forall>(s::store) id2. available s \<and> colls s = colls ?st1 \<longrightarrow>
            (\<exists>s'. get_settings L s id2 = (Inr SiteSettings_default, s')
                 \<and> available s' \<and> colls s' = colls s)"
  proof (intro allI impI)
    fix s :: store and id2 assume s: "available s \<and> colls s = colls ?st1"
    then have s1: "available s" and s2: "colls s ''sitesettings'' = [?d]"
      using c by simp_all
    have "get_settings L s id2 = (Inr SiteSettings_default, logged (FindOne ''sitesettings'') s)"
      by (rule get_settings_materialized[OF s1 s2])
    moreover have "available (logged (FindOne ''sitesettings'') s)"
      "colls (logged (FindOne ''sitesettings'') s) = colls s"
      using s1 by (simp_all add: logged_def)
    ultimately show "\<exists>s'. get_settings L s id2 = (Inr SiteSettings_default, s')
                 \<and> available s' \<and> colls s' = colls s" by blast
  qed
  have dflt: "hero_title SiteSettings_default = ''Premium White Goods''"
    "hero_subtitle SiteSettings_default = ''Reliable appliances for every home.''"
    "contact_email SiteSettings_default = None" "phone SiteSettings_default = None"
    "address SiteSettings_default = None"
    by (simp_all add: SiteSettings_default_def)
  have pin: "doc_id ?d = id1"
    "doc_fields ?d ''hero_title'' = Some (PStr ''Premium White Goods'')"
    "doc_fields ?d ''hero_subtitle'' = Some (PStr ''Reliable appliances for every home.'')"
    "doc_fields ?d ''contact_email'' = Some PNone"
    "doc_fields ?d ''phone'' = Some PNone"
    "doc_fields ?d ''address'' = Some PNone"
    by (simp_all add: SiteSettings_default_dump)
  from g a c again dflt pin show ?thesis by blast
qed

text \<open>
  C6, instance: two reads in a row, starting from the empty store.
\<close>

theorem settings_default_on_first_read_witness:
  "available store_empty \<and> colls store_empty ''sitesettings'' = []
   \<and> fst (get_settings lib_example store_empty oid_a) = Inr SiteSettings_default
   \<and> fst (get_settings lib_example (snd (get_settings lib_example store_empty oid_a)) oid_b)
       = Inr SiteSettings_default
   \<and> colls (snd (get_settings lib_example (snd (get_settings lib_example store_empty oid_a))
        oid_b))
       = colls (snd (get_settings lib_example store_empty oid_a))"
proof -
  have a: "available store_empty" and c: "colls store_empty ''sitesettings'' = []"
    by (simp_all add: store_empty_def)
  from settings_default_on_first_read[OF a c, of lib_example oid_a]
  obtain st1 where g: "get_settings lib_example store_empty oid_a = (Inr SiteSettings_default, st1)"
    and av: "available st1"
    and again: "\<forall>(s::store) id2. available s \<and> colls s = colls st1 \<longrightarrow>
            (\<exists>s'. get_settings lib_example s id2 = (Inr SiteSettings_default, s')
                 \<and> available s' \<and> colls s' = colls s)"
    by blast
  from again av obtain s' where
    "get_settings lib_example st1 oid_b = (Inr SiteSettings_default, s')" "colls s' = colls st1"
    by blast
  with g a c show ?thesis by simp
qed

lemma ContactMessageIn_dump:
  "ContactMessageIn_model_dump m ''name'' = Some (PStr (name' m))"
  "ContactMessageIn_model_dump m ''email'' = Some (PStr (email m))"
  "ContactMessageIn_model_dump m ''message'' = Some (PStr (message m))"
  by (simp_all add: ContactMessageIn_model_dump_def)

text \<open>
  What the contact handler does otherwise: an unreachable store fails the request
  before anything else; a response, when one is returned, comes after the message
  is stored and is the fixed one when no relay host is configured; and when the
  port text is an integer and the relay is configured, the response reports what
  the relay did with the one session it was asked for.
\<close>

lemma send_contact_down:
  "\<not> available st \<Longrightarrow> send_contact_message L relay env st new_id payload = (Inl StoreFailure, st)"
  by (simp add: send_contact_message_def create_document_def)

lemma send_contact_returned:
  assumes "send_contact_message L relay env st new_id payload = (Inr r, st')"
  shows "available st \<and> stored r
     \<and> st' = logged (InsertOne ''contactmessage'')
               (st\<lparr>colls := (colls st)(''contactmessage'' := colls st ''contactmessage'' @
                  [\<lparr>doc_id = new_id, doc_fields = ContactMessageIn_model_dump payload\<rparr>])\<rparr>)
     \<and> (\<not> truthy (SMTP_HOST env) \<longrightarrow>
          r = \<lparr>stored = True, email_sent = False,
               error = Some ''SMTP not configured on server''\<rparr>)"
  using assms
  by (auto simp: send_contact_message_def create_document_def Let_def
      split: if_splits option.splits smtp_outcome.splits)

lemma send_contact_relayed:
  assumes "available st"
    and "int_of_str L (getenv_default (SMTP_PORT env) ''587'') = Some p"
    and "truthy (SMTP_HOST env)"
    and "truthy (py_or (CONTACT_TO_EMAIL env) (SMTP_USER env))"
  shows "\<exists>sess st1. send_contact_message L relay env st new_id payload =
      (case relay sess of
         Delivered \<Rightarrow> (Inr \<lparr>stored = True, email_sent = True, error = None\<rparr>, st1)
       | Failed e \<Rightarrow> (Inr \<lparr>stored = True, email_sent = False, error = Some e\<rparr>, st1)
       | DeliveredThenFailed e \<Rightarrow>
           (Inr \<lparr>stored = True, email_sent = True, error = Some e\<rparr>, st1))"
proof -
  define to_email where "to_email = py_or (CONTACT_TO_EMAIL env) (SMTP_USER env)"
  define sess where "sess =
     \<lparr>host = text_of (SMTP_HOST env), port = p,
      login = (if truthy (SMTP_USER env) \<and> truthy (SMTP_PASS env)
               then Some (text_of (SMTP_USER env), text_of (SMTP_PASS env)) else None),
      msg = \<lparr>Subject = ''New contact message from '' @ name' payload,
             From = text_of (py_or (SMTP_USER env) to_email),
             To = text_of to_email,
             content = ''Name: '' @ name' payload @ [CHR 0x0A] @
                       ''Email: '' @ email payload @ [CHR 0x0A, CHR 0x0A] @
                       ''Message:'' @ [CHR 0x0A] @ message payload\<rparr>\<rparr>"
  define st1 where "st1 = logged (InsertOne ''contactmessage'')
      (st\<lparr>colls := (colls st)(''contactmessage'' := colls st ''contactmessage'' @
         [\<lparr>doc_id = new_id, doc_fields = ContactMessageIn_model_dump payload\<rparr>])\<rparr>)"
  have "send_contact_message L relay env st new_id payload =
      (case relay sess of
         Delivered \<Rightarrow> (Inr \<lparr>stored = True, email_sent = True, error = None\<rparr>, st1)
       | Failed e \<Rightarrow> (Inr \<lparr>stored = True, email_sent = False, error = Some e\<rparr>, st1)
       | DeliveredThenFailed e \<Rightarrow>
           (Inr \<lparr>stored = True, email_sent = True, error = Some e\<rparr>, st1))"
    unfolding send_contact_message_def create_document_def sess_def st1_def to_email_def
    using assms by (simp add: Let_def)
  then show ?thesis by blast
qed

text \<open>
  C9, where the code departs from it. The port text is converted to an integer
  after the message is stored and before the \<^verbatim>\<open>try\<close> block. With
  \<^verbatim>\<open>SMTP_PORT=abc\<close> the conversion raises, so the request fails with that
  \<^verbatim>\<open>ValueError\<close>, whatever the relay would do and whether or not a relay is
  configured, while the message, with its name, address and text, is in the store.
\<close>

theorem contact_bad_port_fails_after_store:
  assumes "available st"
    and "SMTP_PORT env = Some ''abc''"
    and "int_of_str L ''abc'' = None"
  shows "\<exists>st' d.
      send_contact_message L relay env st new_id payload =
        (Inl (ValueError (''invalid literal for int() with base 10: '' @ [CHR 0x27] @ ''abc''
                @ [CHR 0x27])), st')
      \<and> colls st' ''contactmessage'' = colls st ''contactmessage'' @ [d]
      \<and> doc_id d = new_id
      \<and> doc_fields d ''name'' = Some (PStr (name' payload))
      \<and> doc_fields d ''email'' = Some (PStr (email payload))
      \<and> doc_fields d ''message'' = Some (PStr (message payload))"
proof -
  let ?d = "\<lparr>doc_id = new_id, doc_fields = ContactMessageIn_model_dump payload\<rparr>"
  let ?st' = "logged (InsertOne ''contactmessage'')
      (st\<lparr>colls := (colls st)(''contactmessage'' := colls st ''contactmessage'' @ [?d])\<rparr>)"
  have "send_contact_message L relay env st new_id payload =
        (Inl (ValueError (''invalid literal for int() with base 10: '' @ [CHR 0x27] @ ''abc''
                @ [CHR 0x27])), ?st')"
    using assms
    by (simp add: send_contact_message_def create_document_def getenv_default_def Let_def)
  moreover have "colls ?st' ''contactmessage'' = colls st ''contactmessage'' @ [?d]"
    by (simp add: logged_def)
  moreover have "doc_id ?d = new_id"
    "doc_fields ?d ''name'' = Some (PStr (name' payload))"
    "doc_fields ?d ''email'' = Some (PStr (email payload))"
    "doc_fields ?d ''message'' = Some (PStr (message payload))"
    by (simp_all add: ContactMessageIn_dump)
  ultimately show ?thesis by blast
qed

text \<open>
  C9, the failing input: a relay host and user configured, the port text
  \<^verbatim>\<open>abc\<close>, the empty store.
\<close>

theorem contact_bad_port_fails_after_store_witness:
  "available store_empty \<and> SMTP_PORT env_bad_port = Some ''abc''
   \<and> int_of_str lib_example ''abc'' = None
   \<and> truthy (SMTP_HOST env_bad_port)
   \<and> truthy (py_or (CONTACT_TO_EMAIL env_bad_port) (SMTP_USER env_bad_port))
   \<and> fst (send_contact_message lib_example relay_down env_bad_port store_empty oid_a
            contact_example)
       = Inl (ValueError (''invalid literal for int() with base 10: '' @ [CHR 0x27] @ ''abc''
                @ [CHR 0x27]))
   \<and> map doc_id (colls (snd (send_contact_message lib_example relay_down env_bad_port
        store_empty oid_a contact_example)) ''contactmessage'') = [oid_a]"
proof -
  have a: "available store_empty" and e: "colls store_empty ''contactmessage'' = []"
    by (simp_all add: store_empty_def)
  have p: "SMTP_PORT env_bad_port = Some ''abc''"
    by (simp add: env_bad_port_def)
  have i: "int_of_str lib_example ''abc'' = None" by (simp add: lib_example_def)
  have t: "truthy (SMTP_HOST env_bad_port)"
    "truthy (py_or (CONTACT_TO_EMAIL env_bad_port) (SMTP_USER env_bad_port))"
    by (simp_all add: env_bad_port_def env_smtp_def env_example_def truthy_def py_or_def)
  from contact_bad_port_fails_after_store[OF a p i, of relay_down oid_a contact_example]
  obtain st' d where
    "send_contact_message lib_example relay_down env_bad_port store_empty oid_a contact_example =
        (Inl (ValueError (''invalid literal for int() with base 10: '' @ [CHR 0x27] @ ''abc''
                @ [CHR 0x27])), st')"
    "colls st' ''contactmessage'' = colls store_empty ''contactmessage'' @ [d]"
    "doc_id d = oid_a"
    by blast
  with a p i t e show ?thesis by simp
qed

end
